theory Spec2Isabelle
  imports Complex_Main "HOL-Library.Multiset"
begin

section \<open>Data model\<close>

text \<open>
  The frontend types its rows as \<^verbatim>\<open>Record<string, unknown>\<close>; the specification narrows the
  cell values to scalars (string, number, boolean, null).  \<open>Undefined\<close> is what a property
  read of a missing key yields.  Numbers are the finite JSON numbers, taken as rationals:
  the order of finite doubles is the order of the rationals they denote, and the sign of
  \<^verbatim>\<open>a - b\<close> on finite doubles is the sign of the exact difference.
\<close>

datatype jsval = Undefined | Null | Bool bool | Num rat | Str string

text \<open>
  A row object is the list of its own properties in the order \<^verbatim>\<open>Object.keys\<close> enumerates
  them; reading a key gives the first binding, \<open>Undefined\<close> when there is none.
\<close>

type_synonym row = "(string \<times> jsval) list"

definition keys :: "row \<Rightarrow> string list" where
  "keys r = map fst r"

definition get :: "row \<Rightarrow> string \<Rightarrow> jsval" where
  "get r k = (case map_of r k of None \<Rightarrow> Undefined | Some v \<Rightarrow> v)"

section \<open>Dataset store: paginated read\<close>

text \<open>
  Modelled from the spec: the paginated read of the Dataset Store, which is in the
  backend service; of it the sources have the HTTP client (\<^verbatim>\<open>getDataset\<close> in
  \<^verbatim>\<open>lib/api.ts\<close>) and the footer of the table.  The spec gives "paginated read (page
  number, page size \<rightarrow> row slice + pagination metadata)" with "total_pages = ceil(R / P)";
  pages are numbered from 1 and a slice is \<open>P\<close> rows from row \<open>(p-1)*P\<close> on.
\<close>

record pagination =
  current_page :: nat
  page_size :: nat
  total_rows :: nat
  total_pages :: nat

definition total_pages_of :: "nat \<Rightarrow> nat \<Rightarrow> nat" where
  "total_pages_of R P = (R + P - 1) div P"

definition page_rows :: "'a list \<Rightarrow> nat \<Rightarrow> nat \<Rightarrow> 'a list" where
  "page_rows rows p P = take P (drop ((p - 1) * P) rows)"

definition get_dataset_page :: "'a list \<Rightarrow> nat \<Rightarrow> nat \<Rightarrow> 'a list \<times> pagination" where
  "get_dataset_page rows p P =
     (page_rows rows p P,
      \<lparr>current_page = p, page_size = P, total_rows = length rows,
       total_pages = total_pages_of (length rows) P\<rparr>)"

text \<open>The "Showing a to b of R rows" footer of \<^verbatim>\<open>DataTable\<close> (1-based, inclusive).\<close>

definition showing_range :: "pagination \<Rightarrow> nat \<times> nat" where
  "showing_range pg =
     ((current_page pg - 1) * page_size pg + 1,
      min (current_page pg * page_size pg) (total_rows pg))"

section \<open>JavaScript values and builtins\<close>

text \<open>
  A value caught by \<^verbatim>\<open>catch\<close>: an \<^verbatim>\<open>Error\<close> instance with its message, or anything else.
  \<^verbatim>\<open>err instanceof Error ? err.message : fallback\<close> is \<open>message_or\<close>.
\<close>

datatype thrown = ErrorObj string | NonError

fun message_or :: "thrown \<Rightarrow> string \<Rightarrow> string" where
  "message_or (ErrorObj m) fallback = m"
| "message_or NonError fallback = fallback"

text \<open>
  A request to the backend: it receives the server's state, answers or fails, and leaves
  the server's state as the backend made it.
\<close>

type_synonym ('req, 'resp, 'srv) request = "'req \<Rightarrow> 'srv \<Rightarrow> (thrown + 'resp) \<times> 'srv"

text \<open>
  \<^verbatim>\<open>String.prototype.toLowerCase\<close> on the ASCII letters.  No code unit outside
  \<open>A\<close>--\<open>Z\<close> lower-cases to a letter of \<^verbatim>\<open>.csv\<close>, \<^verbatim>\<open>.xlsx\<close> or \<^verbatim>\<open>.xls\<close>, so the membership
  test of \<open>onDrop\<close> is decided by this part of the mapping.
\<close>

definition toLowerCase_char :: "char \<Rightarrow> char" where
  "toLowerCase_char c =
     (case map_of (zip ''ABCDEFGHIJKLMNOPQRSTUVWXYZ'' ''abcdefghijklmnopqrstuvwxyz'') c of
        None \<Rightarrow> c | Some l \<Rightarrow> l)"

definition toLowerCase :: "string \<Rightarrow> string" where
  "toLowerCase s = map toLowerCase_char s"



text \<open>
  The conversions between numbers and strings, the locale's collation, the white space
  that \<^verbatim>\<open>trim\<close> strips and the order a sort leaves under a comparator that is no
  ordering are builtins of the JavaScript engine; the model takes them as parameters.
  \<open>str_num\<close> is \<^verbatim>\<open>Number(s)\<close> on a string, with \<open>None\<close> for \<^verbatim>\<open>NaN\<close>; \<open>num_str\<close> is
  \<^verbatim>\<open>String(x)\<close> on a number; \<open>localeCompare\<close> is \<^verbatim>\<open>a.localeCompare(b)\<close>; \<open>trim\<close> is
  \<^verbatim>\<open>String.prototype.trim\<close>, which strips the white space and the line terminators of
  the language, the Unicode ones among them, from both ends; \<open>engine_sort\<close> is
  \<^verbatim>\<open>Array.prototype.sort\<close> on an array of rows, whatever the comparator.
\<close>

record builtins =
  num_str :: "rat \<Rightarrow> string"
  str_num :: "string \<Rightarrow> rat option"
  localeCompare :: "string \<Rightarrow> string \<Rightarrow> rat"
  trim :: "string \<Rightarrow> string"
  engine_sort :: "(row \<Rightarrow> row \<Rightarrow> rat) \<Rightarrow> row list \<Rightarrow> row list"

fun js_String :: "builtins \<Rightarrow> jsval \<Rightarrow> string" where
  "js_String B Undefined = ''undefined''"
| "js_String B Null = ''null''"
| "js_String B (Bool b) = (if b then ''true'' else ''false'')"
| "js_String B (Num x) = num_str B x"
| "js_String B (Str s) = s"

text \<open>\<^verbatim>\<open>Number(v)\<close>, \<open>None\<close> standing for \<^verbatim>\<open>NaN\<close>.\<close>

fun js_Number :: "builtins \<Rightarrow> jsval \<Rightarrow> rat option" where
  "js_Number B Undefined = None"
| "js_Number B Null = Some 0"
| "js_Number B (Bool b) = Some (if b then 1 else 0)"
| "js_Number B (Num x) = Some x"
| "js_Number B (Str s) = str_num B s"

text \<open>\<^verbatim>\<open>v ?? d\<close> and \<^verbatim>\<open>n || 0\<close> on a number (\<^verbatim>\<open>NaN\<close> and 0 are falsy).\<close>

definition nullish_or :: "jsval \<Rightarrow> jsval \<Rightarrow> jsval" where
  "nullish_or v d = (if v = Null \<or> v = Undefined then d else v)"

definition or_zero :: "rat option \<Rightarrow> rat" where
  "or_zero n = (case n of None \<Rightarrow> 0 | Some x \<Rightarrow> x)"

text \<open>\<^verbatim>\<open>s || d\<close> on an optional string: \<^verbatim>\<open>null\<close>, \<^verbatim>\<open>undefined\<close> and \<^verbatim>\<open>""\<close> are falsy.\<close>

definition str_or :: "string option \<Rightarrow> string option \<Rightarrow> string option" where
  "str_or s d = (case s of None \<Rightarrow> d | Some x \<Rightarrow> if x = [] then d else Some x)"

text \<open>
  \<^verbatim>\<open>Array.prototype.sort(cmp)\<close> under a comparator that is a consistent ordering of the
  elements.  The language specification makes the sort stable, so the result is
  determined, and it is the one this insertion sort computes: an element goes in front
  of the first element it does not compare greater than, so equal elements keep their
  order.
\<close>

fun insert_by :: "('a \<Rightarrow> 'a \<Rightarrow> rat) \<Rightarrow> 'a \<Rightarrow> 'a list \<Rightarrow> 'a list" where
  "insert_by cmp x [] = [x]"
| "insert_by cmp x (y # ys) = (if cmp x y \<le> 0 then x # y # ys else y # insert_by cmp x ys)"

definition js_sort :: "('a \<Rightarrow> 'a \<Rightarrow> rat) \<Rightarrow> 'a list \<Rightarrow> 'a list" where
  "js_sort cmp xs = foldr (insert_by cmp) xs []"

text \<open>
  A consistent comparison function for the elements of an array, as the language
  specification has it: \<open>cmp a a = 0\<close>; \<open>cmp a b = 0\<close> gives \<open>cmp b a = 0\<close>; and each of
  \<open>= 0\<close>, \<open>< 0\<close> and \<open>> 0\<close> is transitive.  The specification fixes the sorted order for
  such a comparator only; for any other the order is the engine's.
\<close>

definition consistent_on :: "('a \<Rightarrow> 'a \<Rightarrow> rat) \<Rightarrow> 'a list \<Rightarrow> bool" where
  "consistent_on cmp xs =
     list_all (\<lambda>a.
       cmp a a = 0 \<and>
       list_all (\<lambda>b.
         (if cmp a b = 0 then cmp b a = 0 else True) \<and>
         list_all (\<lambda>c.
           (if cmp a b = 0 \<and> cmp b c = 0 then cmp a c = 0 else True) \<and>
           (if cmp a b < 0 \<and> cmp b c < 0 then cmp a c < 0 else True) \<and>
           (if cmp a b > 0 \<and> cmp b c > 0 then cmp a c > 0 else True)) xs) xs) xs"

definition array_sort :: "builtins \<Rightarrow> (row \<Rightarrow> row \<Rightarrow> rat) \<Rightarrow> row list \<Rightarrow> row list" where
  "array_sort B cmp xs = (if consistent_on cmp xs then js_sort cmp xs else engine_sort B cmp xs)"

text \<open>\<^verbatim>\<open>Array.prototype.join(sep)\<close> on strings.\<close>

fun join :: "string \<Rightarrow> string list \<Rightarrow> string" where
  "join sep [] = []"
| "join sep [x] = x"
| "join sep (x # y # ys) = x @ sep @ join sep (y # ys)"

text \<open>
  Arrays are objects: a variable holds a reference, \<^verbatim>\<open>sort\<close> rearranges the array it is
  called on, \<^verbatim>\<open>[...a]\<close> and \<^verbatim>\<open>slice\<close> make a new one.  A heap is the list of the arrays
  allocated so far and a reference is an index into it.
\<close>

type_synonym 'a heap = "'a list list"

definition alloc :: "'a list \<Rightarrow> 'a heap \<Rightarrow> nat \<times> 'a heap" where
  "alloc xs h = (length h, h @ [xs])"

definition spread :: "nat \<Rightarrow> 'a heap \<Rightarrow> nat \<times> 'a heap" where
  "spread r h = alloc (h ! r) h"

definition sort_in_place :: "('a \<Rightarrow> 'a \<Rightarrow> rat) \<Rightarrow> nat \<Rightarrow> 'a heap \<Rightarrow> nat \<times> 'a heap" where
  "sort_in_place cmp r h = (r, h[r := js_sort cmp (h ! r)])"

definition slice :: "nat \<Rightarrow> nat \<Rightarrow> nat \<Rightarrow> 'a heap \<Rightarrow> nat \<times> 'a heap" where
  "slice r a b h = alloc (take (b - a) (drop a (h ! r))) h"

section \<open>File upload widget (\<^verbatim>\<open>FileUpload.onDrop\<close>)\<close>











section \<open>Data table (\<^verbatim>\<open>DataTable.tsx\<close>) and cell edits\<close>

datatype sort_direction = Asc | Desc

record table_props =
  t_data :: "row list"
  t_columns :: "string list"
  currentPage :: int
  pageSize :: int
  has_onCellEdit :: bool

record table_state =
  editingCell :: "(nat \<times> string) option"
  editValue :: string
  sortColumn :: "string option"
  sortDirection :: sort_direction

text \<open>
  The comparator of \<open>sortedData\<close>.  It answers 1 whenever the first value is missing, so
  on data with missing values, or with numbers and strings mixed, it need not be a
  consistent ordering.
\<close>

definition compare_rows :: "builtins \<Rightarrow> string \<Rightarrow> sort_direction \<Rightarrow> row \<Rightarrow> row \<Rightarrow> rat" where
  "compare_rows B col dir a b =
     (let aVal = get a col; bVal = get b col in
      if aVal = Null \<or> aVal = Undefined then 1
      else if bVal = Null \<or> bVal = Undefined then - 1
      else (case (aVal, bVal) of
              (Num x, Num y) \<Rightarrow> (if dir = Asc then x - y else y - x)
            | _ \<Rightarrow>
               (let aStr = toLowerCase (js_String B aVal);
                    bStr = toLowerCase (js_String B bVal)
                in if dir = Asc then localeCompare B aStr bStr
                   else localeCompare B bStr aStr)))"

text \<open>\<^verbatim>\<open>if (!sortColumn) return data\<close>: \<^verbatim>\<open>null\<close> and the empty name are falsy.\<close>

definition sortedData :: "builtins \<Rightarrow> table_props \<Rightarrow> table_state \<Rightarrow> row list" where
  "sortedData B props st =
     (case sortColumn st of
        None \<Rightarrow> t_data props
      | Some col \<Rightarrow>
          if col = [] then t_data props
          else array_sort B (compare_rows B col (sortDirection st)) (t_data props))"

definition handleSort :: "string \<Rightarrow> table_state \<Rightarrow> table_state" where
  "handleSort column st =
     (if sortColumn st = Some column
      then st\<lparr>sortDirection := (if sortDirection st = Asc then Desc else Asc)\<rparr>
      else st\<lparr>sortColumn := Some column, sortDirection := Asc\<rparr>)"

definition startEditing :: "builtins \<Rightarrow> nat \<Rightarrow> string \<Rightarrow> jsval \<Rightarrow> table_state \<Rightarrow> table_state" where
  "startEditing B rowIndex column v st =
     st\<lparr>editingCell := Some (rowIndex, column),
        editValue := js_String B (nullish_or v (Str []))\<rparr>"

definition cancelEditing :: "table_state \<Rightarrow> table_state" where
  "cancelEditing st = st\<lparr>editingCell := None, editValue := []\<rparr>"

text \<open>
  The edit button of the cell in displayed row \<open>rowIndex\<close> (an index into \<open>sortedData\<close>):
  \<^verbatim>\<open>onClick={() => startEditing(rowIndex, column, value)}\<close> with \<^verbatim>\<open>value = row[column]\<close>.
\<close>

definition click_edit :: "builtins \<Rightarrow> table_props \<Rightarrow> nat \<Rightarrow> string \<Rightarrow> table_state \<Rightarrow> table_state" where
  "click_edit B props rowIndex column st =
     startEditing B rowIndex column (get (sortedData B props st ! rowIndex) column) st"

text \<open>
  \<open>saveEdit\<close> returns the new state and the call of \<open>onCellEdit\<close> it made, if any:
  row index, column name, new value.
\<close>

definition saveEdit ::
  "builtins \<Rightarrow> table_props \<Rightarrow> table_state \<Rightarrow> table_state \<times> (int \<times> string \<times> jsval) option" where
  "saveEdit B props st =
     (case editingCell st of
        None \<Rightarrow> (cancelEditing st, None)
      | Some (r, c) \<Rightarrow>
          if has_onCellEdit props then
            (let v = (case str_num B (editValue st) of
                        Some x \<Rightarrow> if trim B (editValue st) \<noteq> [] then Num x else Str (editValue st)
                      | None \<Rightarrow> Str (editValue st))
             in (cancelEditing st, Some ((currentPage props - 1) * pageSize props + int r, c, v)))
          else (cancelEditing st, None))"

text \<open>
  Modelled from the spec: the single-cell update of the Dataset Store, which the frontend
  reaches through \<^verbatim>\<open>updateCell\<close> (\<^verbatim>\<open>PUT /api/data/{id}/cell\<close>); its implementation is in the
  backend service.  The spec gives "single-cell update (row index + column name + new
  value)", a row index that is global, and "cell update by (row_index, column_name)
  followed by a read of the same (row_index, column_name) returns the updated value".
\<close>

fun set_field :: "string \<Rightarrow> jsval \<Rightarrow> row \<Rightarrow> row" where
  "set_field k v [] = [(k, v)]"
| "set_field k v ((k', v') # r) = (if k = k' then (k, v) # r else (k', v') # set_field k v r)"

definition update_cell :: "row list \<Rightarrow> int \<Rightarrow> string \<Rightarrow> jsval \<Rightarrow> row list option" where
  "update_cell rows i c v =
     (if 0 \<le> i \<and> i < int (length rows)
      then Some (rows[nat i := set_field c v (rows ! nat i)])
      else None)"

definition read_cell :: "row list \<Rightarrow> int \<Rightarrow> string \<Rightarrow> jsval option" where
  "read_cell rows i c =
     (if 0 \<le> i \<and> i < int (length rows) then Some (get (rows ! nat i) c) else None)"

section \<open>Query box (\<^verbatim>\<open>QueryInput.tsx\<close>)\<close>

text \<open>
  \<^verbatim>\<open>result_type: "table" | "value" | "text" | "error"\<close>: the kind the spec calls scalar is
  written \<^verbatim>\<open>"value"\<close> by the code.  \<open>result_type_name\<close> is the string the discriminant is at
  run time, which is what the \<^verbatim>\<open>switch\<close> of \<open>renderResult\<close> compares.
\<close>

datatype result_type = Table | Value | Text | Error

fun result_type_name :: "result_type \<Rightarrow> string" where
  "result_type_name Table = ''table''"
| "result_type_name Value = ''value''"
| "result_type_name Text = ''text''"
| "result_type_name Error = ''error''"

text \<open>\<^verbatim>\<open>data: unknown\<close>: a scalar (\<^verbatim>\<open>null\<close> among them), an object or an array of rows.\<close>

datatype payload = Scalar jsval | Object row | Rows "row list"

record QueryResult =
  qr_query :: string
  qr_result_type :: result_type
  qr_data :: payload
  qr_explanation :: string
  qr_pandas_code :: "string option"
  qr_execution_time_ms :: rat

record query_state =
  q_query :: string
  q_loading :: bool
  q_result :: "QueryResult option"
  q_history :: "string list"

datatype query_event = QueryRequest string | OnQueryResult QueryResult

text \<open>
  \<open>handleSubmit\<close>.  \<open>queryDataset\<close> is the request with the dataset id and the model bound;
  its outcome \<open>Inl\<close> is a rejected promise.  The result is the component state once the
  handler has run to its \<^verbatim>\<open>finally\<close>, the server state, and the trace of the request and
  of the optional callback \<open>onQueryResult\<close>.
\<close>

definition handleSubmit ::
  "builtins \<Rightarrow> (string, QueryResult, 'srv) request \<Rightarrow> bool \<Rightarrow> query_state \<times> 'srv
     \<Rightarrow> query_state \<times> 'srv \<times> query_event list" where
  "handleSubmit B queryDataset has_onQueryResult = (\<lambda>(st, srv).
     if trim B (q_query st) = [] \<or> q_loading st then (st, srv, [])
     else
       (let st1 = st\<lparr>q_loading := True, q_result := None\<rparr>
        in case queryDataset (trim B (q_query st)) srv of
             (Inr queryResult, srv') \<Rightarrow>
               (st1\<lparr>q_result := Some queryResult,
                    q_history := take 10 (trim B (q_query st) #
                                   filter (\<lambda>q. q \<noteq> trim B (q_query st)) (q_history st)),
                    q_loading := False\<rparr>,
                srv',
                QueryRequest (trim B (q_query st)) #
                (if has_onQueryResult then [OnQueryResult queryResult] else []))
           | (Inl err, srv') \<Rightarrow>
               (st1\<lparr>q_result := Some
                      \<lparr>qr_query = q_query st, qr_result_type = Error, qr_data = Scalar Null,
                       qr_explanation = message_or err ''Query failed'',
                       qr_pandas_code = None, qr_execution_time_ms = 0\<rparr>,
                    q_loading := False\<rparr>,
                srv', [QueryRequest (trim B (q_query st))])))"

text \<open>What \<open>renderResult\<close> puts on the screen.\<close>

datatype result_view =
    NoResult
  | TableView "row list" "string list"
  | NoDataReturned
  | ValueView payload
  | TextView payload
  | ErrorView string
  | RawView payload

definition render_switch :: "string \<Rightarrow> QueryResult \<Rightarrow> result_view" where
  "render_switch kind r =
     (if kind = ''table'' then
        (case qr_data r of
           Rows (first # rest) \<Rightarrow> TableView (first # rest) (keys first)
         | _ \<Rightarrow> NoDataReturned)
      else if kind = ''value'' then ValueView (qr_data r)
      else if kind = ''text'' then TextView (qr_data r)
      else if kind = ''error'' then ErrorView (qr_explanation r)
      else RawView (qr_data r))"

definition renderResult :: "QueryResult option \<Rightarrow> result_view" where
  "renderResult result =
     (case result of
        None \<Rightarrow> NoResult
      | Some r \<Rightarrow> render_switch (result_type_name (qr_result_type r)) r)"

section \<open>Modification box (\<^verbatim>\<open>DataEditor.handleModify\<close>)\<close>

record DataModifyResult =
  m_success :: bool
  m_message :: string
  m_changes_made :: string
  m_rows_affected :: nat
  m_pandas_code :: "string option"

record editor_state =
  e_command :: string
  e_loading :: bool
  e_result :: "DataModifyResult option"

datatype editor_event = ModifyRequest string | OnModifySuccess

text \<open>
  \<open>handleModify\<close>.  \<open>modifyData\<close> is the request with the dataset id and the model bound;
  \<open>onModifySuccess\<close> is an optional prop (the page passes \<open>refreshData\<close>).
\<close>

definition handleModify ::
  "builtins \<Rightarrow> (string, DataModifyResult, 'srv) request \<Rightarrow> bool \<Rightarrow> editor_state \<times> 'srv
     \<Rightarrow> editor_state \<times> 'srv \<times> editor_event list" where
  "handleModify B modifyData has_onModifySuccess = (\<lambda>(st, srv).
     if trim B (e_command st) = [] \<or> e_loading st then (st, srv, [])
     else
       (let st1 = st\<lparr>e_loading := True, e_result := None\<rparr>
        in case modifyData (trim B (e_command st)) srv of
             (Inr modifyResult, srv') \<Rightarrow>
               (st1\<lparr>e_result := Some modifyResult, e_loading := False\<rparr>, srv',
                ModifyRequest (trim B (e_command st)) #
                (if m_success modifyResult \<and> has_onModifySuccess then [OnModifySuccess] else []))
           | (Inl err, srv') \<Rightarrow>
               (st1\<lparr>e_result := Some
                      \<lparr>m_success = False, m_message = message_or err ''Modification failed'',
                       m_changes_made = [], m_rows_affected = 0, m_pandas_code = None\<rparr>,
                    e_loading := False\<rparr>,
                srv', [ModifyRequest (trim B (e_command st))])))"

section \<open>Backend pipeline for modifications and charts\<close>

text \<open>
  Modelled from the spec: the Dataset Store, the Executor and the API layer of the
  backend service, whose code is not among the sources (the frontend only posts to
  \<^verbatim>\<open>/api/data/modify\<close> and \<^verbatim>\<open>/api/charts/generate\<close>).  The spec gives a store "keyed by
  identifier"; a linear pipeline "API Layer \<rightarrow> Dataset Store \<rightarrow> Prompt Builder \<rightarrow> LLM Client
  \<rightarrow> Response Interpreter \<rightarrow> Executor"; "all pipeline-stage failures are converted to a
  uniform error-shaped result at the API boundary"; and for modifications "either the
  whole command succeeds and the dataset reflects the new state, or it fails and the
  dataset is unchanged".  Prompt, model call and interpretation are the parameter
  \<open>translate\<close>: from the dataset and the command it gives a failure message or the
  interpreted snippet with its code; the snippet run on the dataset raises with a
  message or returns the new dataset with the message, the description of the changes
  and the number of rows affected that the result reports.
\<close>

record dataset =
  ds_columns :: "string list"
  ds_rows :: "row list"

type_synonym store = "string \<rightharpoonup> dataset"

type_synonym snippet = "dataset \<Rightarrow> string + dataset \<times> string \<times> string \<times> nat"

definition modify_failure :: "string \<Rightarrow> string option \<Rightarrow> DataModifyResult" where
  "modify_failure msg code =
     \<lparr>m_success = False, m_message = msg, m_changes_made = [], m_rows_affected = 0,
      m_pandas_code = code\<rparr>"

definition modify_endpoint ::
  "(dataset \<Rightarrow> string \<Rightarrow> string + snippet \<times> string) \<Rightarrow> string
     \<Rightarrow> (string, DataModifyResult, store) request" where
  "modify_endpoint translate dataset_id command st =
     (case st dataset_id of
        None \<Rightarrow> (Inr (modify_failure ''Dataset not found'' None), st)
      | Some ds \<Rightarrow>
          (case translate ds command of
             Inl msg \<Rightarrow> (Inr (modify_failure msg None), st)
           | Inr (run, code) \<Rightarrow>
               (case run ds of
                  Inl msg \<Rightarrow> (Inr (modify_failure msg (Some code)), st)
                | Inr (ds', msg, changes, affected) \<Rightarrow>
                    (Inr \<lparr>m_success = True, m_message = msg,
                          m_changes_made = changes,
                          m_rows_affected = affected,
                          m_pandas_code = Some code\<rparr>,
                     st(dataset_id \<mapsto> ds')))))"

section \<open>Chart panel (\<^verbatim>\<open>ChartDisplay\<close>)\<close>

text \<open>
  \<^verbatim>\<open>chart_type: "bar" | "line" | "pie" | "scatter" | "area"\<close>; \<open>chart_type_name\<close> is the string
  the discriminant is at run time.
\<close>

datatype chart_kind = Bar | Line | Pie | Scatter | Area

fun chart_type_name :: "chart_kind \<Rightarrow> string" where
  "chart_type_name Bar = ''bar''"
| "chart_type_name Line = ''line''"
| "chart_type_name Pie = ''pie''"
| "chart_type_name Scatter = ''scatter''"
| "chart_type_name Area = ''area''"

record ChartConfig =
  chart_type :: chart_kind
  title :: string
  x_axis :: "string option"
  y_axis :: "string option"
  x_label :: "string option"
  y_label :: "string option"

record ChartResponse =
  cr_success :: bool
  cr_config :: ChartConfig
  cr_data :: "row list"
  cr_explanation :: string
  cr_error :: "string option"

record chart_state =
  c_query :: string
  c_loading :: bool
  chartData :: "ChartResponse option"
  c_error :: "string option"

datatype chart_event = ChartRequest string

definition handleGenerate ::
  "builtins \<Rightarrow> (string, ChartResponse, 'srv) request \<Rightarrow> chart_state \<times> 'srv
     \<Rightarrow> chart_state \<times> 'srv \<times> chart_event list" where
  "handleGenerate B generateChart = (\<lambda>(st, srv).
     if trim B (c_query st) = [] \<or> c_loading st then (st, srv, [])
     else
       (let st1 = st\<lparr>c_loading := True, c_error := None\<rparr>
        in case generateChart (trim B (c_query st)) srv of
             (Inr result, srv') \<Rightarrow>
               (if cr_success result
                then st1\<lparr>chartData := Some result, c_loading := False\<rparr>
                else st1\<lparr>c_error := str_or (cr_error result) (Some ''Failed to generate chart''),
                         c_loading := False\<rparr>,
                srv', [ChartRequest (trim B (c_query st))])
           | (Inl err, srv') \<Rightarrow>
               (st1\<lparr>c_error := Some (message_or err ''Failed to generate chart''),
                    c_loading := False\<rparr>,
                srv', [ChartRequest (trim B (c_query st))])))"

text \<open>What \<open>renderChart\<close> puts on the screen: the chart component, its data and its keys.\<close>

datatype chart_view =
    NoDataToDisplay
  | BarChart "row list" "string option" string
  | LineChart "row list" "string option" string
  | PieChart "row list" "string option" string
  | ScatterChart "row list" "string option" string
  | AreaChart "row list" "string option" string
  | Unsupported string


text \<open>\<^verbatim>\<open>Object.keys(o)[i]\<close>, \<^verbatim>\<open>undefined\<close> past the end.\<close>

definition key_at :: "row \<Rightarrow> nat \<Rightarrow> string option" where
  "key_at r i = (if i < length (keys r) then Some (keys r ! i) else None)"

definition xKey_of :: "ChartConfig \<Rightarrow> row \<Rightarrow> string option" where
  "xKey_of config first = str_or (x_axis config) (key_at first 0)"

definition yKey_of :: "ChartConfig \<Rightarrow> row \<Rightarrow> string" where
  "yKey_of config first =
     (case str_or (str_or (y_axis config) (key_at first 1)) (Some ''count'') of
        Some k \<Rightarrow> k | None \<Rightarrow> ''count'')"

text \<open>The comparator and the selection of the pie branch.\<close>

definition pie_value :: "builtins \<Rightarrow> string \<Rightarrow> row \<Rightarrow> rat" where
  "pie_value B yKey r = or_zero (js_Number B (get r yKey))"

definition pie_cmp :: "builtins \<Rightarrow> string \<Rightarrow> row \<Rightarrow> row \<Rightarrow> rat" where
  "pie_cmp B yKey a b = pie_value B yKey b - pie_value B yKey a"

text \<open>
  \<^verbatim>\<open>[...data].sort(cmp).slice(0, 10)\<close> on the heap: \<open>dataRef\<close> is the array \<^verbatim>\<open>chartData.data\<close>;
  the result is the reference of \<open>pieData\<close> and the heap afterwards.
\<close>

definition pieData_heap :: "builtins \<Rightarrow> string \<Rightarrow> nat \<Rightarrow> row heap \<Rightarrow> nat \<times> row heap" where
  "pieData_heap B yKey dataRef h =
     (let (copy, h1) = spread dataRef h;
          (sorted, h2) = sort_in_place (pie_cmp B yKey) copy h1
      in slice sorted 0 10 h2)"

text \<open>The same selection as a value, for the view.\<close>

definition pieData :: "builtins \<Rightarrow> string \<Rightarrow> row list \<Rightarrow> row list" where
  "pieData B yKey d = take 10 (js_sort (pie_cmp B yKey) d)"

definition chart_switch ::
  "builtins \<Rightarrow> string \<Rightarrow> row list \<Rightarrow> string option \<Rightarrow> string \<Rightarrow> chart_view" where
  "chart_switch B kind d xKey yKey =
     (if kind = ''bar'' then BarChart d xKey yKey
      else if kind = ''line'' then LineChart d xKey yKey
      else if kind = ''pie'' then PieChart (pieData B yKey d) xKey yKey
      else if kind = ''scatter'' then ScatterChart d xKey yKey
      else if kind = ''area'' then AreaChart d xKey yKey
      else Unsupported kind)"

definition renderChart :: "builtins \<Rightarrow> ChartResponse option \<Rightarrow> chart_view" where
  "renderChart B cd =
     (case cd of
        None \<Rightarrow> NoDataToDisplay
      | Some resp \<Rightarrow>
          (case cr_data resp of
             [] \<Rightarrow> NoDataToDisplay
           | first # rest \<Rightarrow>
               chart_switch B (chart_type_name (chart_type (cr_config resp))) (cr_data resp)
                 (xKey_of (cr_config resp) first) (yKey_of (cr_config resp) first)))"

text \<open>
  The panel below the input: the error box (\<^verbatim>\<open>{error && ...}\<close>) and the chart card
  (\<^verbatim>\<open>{chartData && chartData.success && ...}\<close>).
\<close>

definition error_box :: "chart_state \<Rightarrow> string option" where
  "error_box st = str_or (c_error st) None"

definition chart_shown :: "chart_state \<Rightarrow> bool" where
  "chart_shown st = (case chartData st of None \<Rightarrow> False | Some resp \<Rightarrow> cr_success resp)"

definition chart_card :: "builtins \<Rightarrow> chart_state \<Rightarrow> chart_view option" where
  "chart_card B st = (if chart_shown st then Some (renderChart B (chartData st)) else None)"

text \<open>
  Modelled from the spec: the chart endpoint of the backend service
  (\<^verbatim>\<open>POST /api/charts/generate\<close>), whose code is not among the sources.  The spec gives
  "column names referenced by any generated chart/query/modification must exist in the
  target Dataset's column list at execution time; violations surface as an error
  result, not a crash" and "chart response success=false with a descriptive error".
  \<open>plan\<close> stands for prompt, model call and interpretation: a failure message, or the
  chart configuration with its explanation.
\<close>

definition referenced_columns :: "ChartConfig \<Rightarrow> string list" where
  "referenced_columns config =
     (case x_axis config of None \<Rightarrow> [] | Some c \<Rightarrow> [c]) @
     (case y_axis config of None \<Rightarrow> [] | Some c \<Rightarrow> [c])"

definition chart_failure :: "ChartConfig \<Rightarrow> string \<Rightarrow> ChartResponse" where
  "chart_failure config msg =
     \<lparr>cr_success = False, cr_config = config, cr_data = [], cr_explanation = [],
      cr_error = Some msg\<rparr>"

definition no_chart :: ChartConfig where
  "no_chart = \<lparr>chart_type = Bar, title = [], x_axis = None, y_axis = None,
               x_label = None, y_label = None\<rparr>"

definition chart_endpoint ::
  "(dataset \<Rightarrow> string \<Rightarrow> string + ChartConfig \<times> string) \<Rightarrow> string
     \<Rightarrow> (string, ChartResponse, store) request" where
  "chart_endpoint plan dataset_id query st =
     (case st dataset_id of
        None \<Rightarrow> (Inr (chart_failure no_chart ''Dataset not found''), st)
      | Some ds \<Rightarrow>
          (case plan ds query of
             Inl msg \<Rightarrow> (Inr (chart_failure no_chart msg), st)
           | Inr (config, expl) \<Rightarrow>
               (case filter (\<lambda>c. c \<notin> set (ds_columns ds)) (referenced_columns config) of
                  c # _ \<Rightarrow>
                    (Inr (chart_failure config (''Column not found in dataset: '' @ c)), st)
                | [] \<Rightarrow>
                    (Inr \<lparr>cr_success = True, cr_config = config, cr_data = ds_rows ds,
                          cr_explanation = expl, cr_error = None\<rparr>, st))))"

section \<open>CSV export (\<^verbatim>\<open>downloadCSV\<close>)\<close>

definition comma :: char where "comma = CHR '',''"
definition dquote :: char where "dquote = CHR 0x22"
definition newline :: char where "newline = CHR 0x0A"

text \<open>\<^verbatim>\<open>s.replace(/"/g, '""')\<close>.\<close>

definition double_quotes :: "string \<Rightarrow> string" where
  "double_quotes s = concat (map (\<lambda>c. if c = dquote then [dquote, dquote] else [c]) s)"

definition csv_cell :: "builtins \<Rightarrow> jsval \<Rightarrow> string" where
  "csv_cell B v =
     (let stringValue = js_String B (nullish_or v (Str []))
      in if comma \<in> set stringValue \<or> dquote \<in> set stringValue \<or> newline \<in> set stringValue
         then [dquote] @ double_quotes stringValue @ [dquote]
         else stringValue)"

definition csvRows :: "builtins \<Rightarrow> row \<Rightarrow> row list \<Rightarrow> string list" where
  "csvRows B first d =
     (let headers = keys first
      in join [comma] headers #
         map (\<lambda>r. join [comma] (map (\<lambda>header. csv_cell B (get r header)) headers)) d)"

text \<open>
  \<open>downloadCSV\<close> gives the text of the blob and the file name it is downloaded under,
  or nothing (a warning on the console) when there is no data.
\<close>

definition downloadCSV :: "builtins \<Rightarrow> row list \<Rightarrow> string \<Rightarrow> (string \<times> string) option" where
  "downloadCSV B d filename =
     (case d of
        [] \<Rightarrow> None
      | first # rest \<Rightarrow> Some (join [newline] (csvRows B first d), filename))"

text \<open>
  The text of a cell, \<^verbatim>\<open>String(value ?? "")\<close>; a string that needs no quoting; and what it
  is for a field of the file to stand for a string: the string itself when it needs no
  quoting, or the string between double quotes with its double quotes doubled.
\<close>

definition cell_text :: "builtins \<Rightarrow> jsval \<Rightarrow> string" where
  "cell_text B v = js_String B (nullish_or v (Str []))"

definition plain :: "string \<Rightarrow> bool" where
  "plain s = (comma \<notin> set s \<and> dquote \<notin> set s \<and> newline \<notin> set s)"

definition encodes :: "string \<Rightarrow> string \<Rightarrow> bool" where
  "encodes e s = ((plain s \<and> e = s) \<or> e = dquote # double_quotes s @ [dquote])"

text \<open>
  The reader the export is written for: CSV as RFC 4180 describes it, records separated
  by line feeds.  A field that starts with a double quote runs to the closing quote, a
  doubled quote inside it standing for one; any other field runs to the next comma or
  line feed.  \<open>fld\<close> and \<open>rec\<close> are the field and the record being read, in reverse.
\<close>

fun csv_read :: "bool \<Rightarrow> string \<Rightarrow> string list \<Rightarrow> string \<Rightarrow> string list list" where
  "csv_read quoted fld rec [] = [rev (rev fld # rec)]"
| "csv_read True fld rec [c] =
     (if c = dquote then csv_read False fld rec [] else csv_read True (c # fld) rec [])"
| "csv_read True fld rec (c # d # cs) =
     (if c = dquote then
        (if d = dquote then csv_read True (dquote # fld) rec cs
         else csv_read False fld rec (d # cs))
      else csv_read True (c # fld) rec (d # cs))"
| "csv_read False fld rec (c # cs) =
     (if c = dquote \<and> fld = [] then csv_read True fld rec cs
      else if c = comma then csv_read False [] (rev fld # rec) cs
      else if c = newline then rev (rev fld # rec) # csv_read False [] [] cs
      else csv_read False (c # fld) rec cs)"

definition parse_csv :: "string \<Rightarrow> string list list" where
  "parse_csv s = csv_read False [] [] s"

section \<open>Pagination\<close>

lemma total_pages_of_bounds:
  assumes "1 \<le> P"
  shows "R \<le> total_pages_of R P * P" and "total_pages_of R P * P < R + P"
proof -
  let ?n = "(R + P - 1) div P"
  have P: "0 < P" using assms by simp
  have eq: "?n * P + (R + P - 1) mod P = R + P - 1" by simp
  have lt: "(R + P - 1) mod P < P" using P by simp
  show "R \<le> total_pages_of R P * P" unfolding total_pages_of_def using eq lt by linarith
  show "total_pages_of R P * P < R + P" unfolding total_pages_of_def using eq P by linarith
qed

lemma total_pages_of_ceiling:
  assumes "1 \<le> P"
  shows "int (total_pages_of R P) = \<lceil>real R / real P\<rceil>"
proof -
  have P: "0 < real P" using assms by simp
  have a: "real R \<le> real (total_pages_of R P) * real P"
    using total_pages_of_bounds(1) [OF assms, of R] by (metis of_nat_le_iff of_nat_mult)
  have b: "real (total_pages_of R P) * real P < real R + real P"
    using total_pages_of_bounds(2) [OF assms, of R] by (metis of_nat_less_iff of_nat_mult of_nat_add)
  have "real R / real P \<le> real (total_pages_of R P)"
    using a P by (simp add: pos_divide_le_eq)
  moreover have "real (total_pages_of R P) - 1 < real R / real P"
  proof -
    have "(real (total_pages_of R P) - 1) * real P < real R"
      using b by (simp add: algebra_simps)
    then show ?thesis using P by (simp only: pos_less_divide_eq)
  qed
  ultimately have "\<lceil>real R / real P\<rceil> = int (total_pages_of R P)"
    by (intro ceiling_unique) simp_all
  then show ?thesis by simp
qed

lemma take_drop_nth:
  "take n (drop a xs) = map ((!) xs) [a ..< min (a + n) (length xs)]"
proof (rule nth_equalityI)
  show "length (take n (drop a xs)) = length (map ((!) xs) [a ..< min (a + n) (length xs)])"
    by simp
next
  fix i assume "i < length (take n (drop a xs))"
  then have i: "i < n" "a + i < length xs" by auto
  then have "take n (drop a xs) ! i = xs ! (a + i)" by simp
  moreover have "map ((!) xs) [a ..< min (a + n) (length xs)] ! i = xs ! (a + i)"
    using i by simp
  ultimately show "take n (drop a xs) ! i = map ((!) xs) [a ..< min (a + n) (length xs)] ! i"
    by simp
qed

lemma page_rows_slice:
  assumes "1 \<le> p"
  shows "page_rows rows p P = map ((!) rows) [(p - 1) * P ..< min (p * P) (length rows)]"
proof -
  have "(p - 1) * P + P = p * P"
    using assms by (cases p) simp_all
  then show ?thesis
    unfolding page_rows_def take_drop_nth by simp
qed

lemma concat_pages_take:
  "concat (map (\<lambda>p. page_rows rows p P) [1..<Suc n]) = take (n * P) rows"
proof (induction n)
  case 0
  then show ?case by simp
next
  case (Suc n)
  have "concat (map (\<lambda>p. page_rows rows p P) [1..<Suc (Suc n)])
        = take (n * P) rows @ page_rows rows (Suc n) P"
    using Suc by simp
  also have "\<dots> = take (n * P + P) rows"
    by (simp add: page_rows_def take_add)
  finally show ?case by (simp add: add.commute)
qed

lemma concat_all_pages:
  assumes "1 \<le> P"
  shows "concat (map (\<lambda>p. page_rows rows p P) [1..<Suc (total_pages_of (length rows) P)]) = rows"
  using total_pages_of_bounds(1) [OF assms, of "length rows"]
  by (simp only: concat_pages_take take_all)

text \<open>
  Claim C6.  For a page size \<open>P \<ge> 1\<close> and a dataset of \<open>R\<close> rows, the pagination metadata
  of a page read has \<open>total_pages = \<lceil>R / P\<rceil>\<close>; page \<open>p\<close> (1-based) holds the rows
  \<open>(p-1)*P\<close> through \<open>min (p*P) R - 1\<close>; the pages 1 to \<open>total_pages\<close> concatenated in page
  order are the dataset in its original order.  The footer of the table shows the same
  range, 1-based.
\<close>

theorem pagination_partitions_dataset:
  assumes "1 \<le> P" and "1 \<le> p"
  shows "int (total_pages (snd (get_dataset_page rows p P))) = \<lceil>real (length rows) / real P\<rceil>
       \<and> fst (get_dataset_page rows p P)
           = map ((!) rows) [(p - 1) * P ..< min (p * P) (length rows)]
       \<and> concat (map (\<lambda>q. fst (get_dataset_page rows q P))
                   [1..<Suc (total_pages (snd (get_dataset_page rows p P)))]) = rows
       \<and> showing_range (snd (get_dataset_page rows p P))
           = ((p - 1) * P + 1, min (p * P) (length rows))"
proof -
  have f: "\<And>q. fst (get_dataset_page rows q P) = page_rows rows q P"
    by (simp add: get_dataset_page_def)
  have t: "total_pages (snd (get_dataset_page rows p P)) = total_pages_of (length rows) P"
    by (simp add: get_dataset_page_def)
  have "int (total_pages (snd (get_dataset_page rows p P))) = \<lceil>real (length rows) / real P\<rceil>"
    unfolding t by (rule total_pages_of_ceiling [OF assms(1)])
  moreover have "fst (get_dataset_page rows p P)
          = map ((!) rows) [(p - 1) * P ..< min (p * P) (length rows)]"
    unfolding f by (rule page_rows_slice [OF assms(2)])
  moreover have "concat (map (\<lambda>q. fst (get_dataset_page rows q P))
                  [1..<Suc (total_pages (snd (get_dataset_page rows p P)))]) = rows"
    unfolding f t by (rule concat_all_pages [OF assms(1)])
  moreover have "showing_range (snd (get_dataset_page rows p P))
          = ((p - 1) * P + 1, min (p * P) (length rows))"
    by (simp add: get_dataset_page_def showing_range_def)
  ultimately show ?thesis by blast
qed

theorem pagination_partitions_dataset_witness:
  "(1::nat) \<le> 2 \<and> (1::nat) \<le> 3 \<and>
   total_pages (snd (get_dataset_page [10, 20, 30, 40, 50 :: nat] 3 2)) = 3 \<and>
   fst (get_dataset_page [10, 20, 30, 40, 50 :: nat] 3 2) = [50] \<and>
   concat (map (\<lambda>q. fst (get_dataset_page [10, 20, 30, 40, 50 :: nat] q 2)) [1..<Suc 3])
     = [10, 20, 30, 40, 50]"
  using pagination_partitions_dataset [of 2 3 "[10, 20, 30, 40, 50 :: nat]"]
  by (simp add: get_dataset_page_def total_pages_of_def page_rows_def upt_conv_Cons)

section \<open>Upload validation\<close>








section \<open>Failures of a submission\<close>

text \<open>
  The guard of the three handlers: a text that trims to nothing, or a request in flight,
  and the handler returns at once; no request is sent and nothing changes.
\<close>

lemma handleSubmit_guard:
  "trim B (q_query st) = [] \<or> q_loading st \<Longrightarrow> handleSubmit B queryDataset h (st, srv) = (st, srv, [])"
  by (auto simp: handleSubmit_def)

lemma handleModify_guard:
  "trim B (e_command st) = [] \<or> e_loading st \<Longrightarrow> handleModify B modifyData h (st, srv) = (st, srv, [])"
  by (auto simp: handleModify_def)

lemma handleGenerate_guard:
  "trim B (c_query st) = [] \<or> c_loading st \<Longrightarrow> handleGenerate B generateChart (st, srv) = (st, srv, [])"
  by (auto simp: handleGenerate_def)

text \<open>
  Claim C3.  For a query submission and for a modify submission (the guard of the
  handler passed: the text trimmed is not empty, no request is in flight), a rejected or throwing
  request does not escape the handler.  The query box ends with the result
  \<open>result_type = error\<close>, \<open>data = null\<close>, \<open>pandas_code = null\<close>, \<open>execution_time_ms = 0\<close> and
  the message of the error as explanation ("Query failed" when what was thrown is not an
  \<^verbatim>\<open>Error\<close>); the modification box ends with \<open>success = false\<close>, \<open>rows_affected = 0\<close>,
  \<open>pandas_code = null\<close> and the message of the error as message ("Modification failed"
  when what was thrown is not an \<^verbatim>\<open>Error\<close>).  A request that answers leaves its answer as
  the result.  Either way the handler ends with a result and with \<open>loading\<close> off.
\<close>

theorem failures_become_error_results:
  assumes "trim B (q_query qs) \<noteq> []" and "\<not> q_loading qs"
      and "trim B (e_command es) \<noteq> []" and "\<not> e_loading es"
  shows "(fst (queryDataset (trim B (q_query qs)) srv) = Inl (ErrorObj m) \<longrightarrow>
            q_result (fst (handleSubmit B queryDataset h (qs, srv))) =
              Some \<lparr>qr_query = q_query qs, qr_result_type = Error, qr_data = Scalar Null,
                    qr_explanation = m, qr_pandas_code = None, qr_execution_time_ms = 0\<rparr>)
       \<and> (fst (queryDataset (trim B (q_query qs)) srv) = Inl NonError \<longrightarrow>
            q_result (fst (handleSubmit B queryDataset h (qs, srv))) =
              Some \<lparr>qr_query = q_query qs, qr_result_type = Error, qr_data = Scalar Null,
                    qr_explanation = ''Query failed'', qr_pandas_code = None,
                    qr_execution_time_ms = 0\<rparr>)
       \<and> (fst (queryDataset (trim B (q_query qs)) srv) = Inr res \<longrightarrow>
            q_result (fst (handleSubmit B queryDataset h (qs, srv))) = Some res)
       \<and> (\<exists>r. q_result (fst (handleSubmit B queryDataset h (qs, srv))) = Some r)
       \<and> \<not> q_loading (fst (handleSubmit B queryDataset h (qs, srv)))
       \<and> (fst (modifyData (trim B (e_command es)) srv2) = Inl (ErrorObj m) \<longrightarrow>
            e_result (fst (handleModify B modifyData h2 (es, srv2))) =
              Some \<lparr>m_success = False, m_message = m, m_changes_made = [],
                    m_rows_affected = 0, m_pandas_code = None\<rparr>)
       \<and> (fst (modifyData (trim B (e_command es)) srv2) = Inl NonError \<longrightarrow>
            e_result (fst (handleModify B modifyData h2 (es, srv2))) =
              Some \<lparr>m_success = False, m_message = ''Modification failed'', m_changes_made = [],
                    m_rows_affected = 0, m_pandas_code = None\<rparr>)
       \<and> (fst (modifyData (trim B (e_command es)) srv2) = Inr mres \<longrightarrow>
            e_result (fst (handleModify B modifyData h2 (es, srv2))) = Some mres)
       \<and> (\<exists>r. e_result (fst (handleModify B modifyData h2 (es, srv2))) = Some r)
       \<and> \<not> e_loading (fst (handleModify B modifyData h2 (es, srv2)))"
proof -
  obtain qo qs' where q: "queryDataset (trim B (q_query qs)) srv = (qo, qs')"
    by (cases "queryDataset (trim B (q_query qs)) srv")
  obtain mo ms' where mm: "modifyData (trim B (e_command es)) srv2 = (mo, ms')"
    by (cases "modifyData (trim B (e_command es)) srv2")
  show ?thesis
    using assms q mm
    by (cases qo; cases mo) (auto simp: handleSubmit_def handleModify_def Let_def)
qed

theorem failures_become_error_results_witness:
  "trim \<lparr>num_str = (\<lambda>x. []), str_num = (\<lambda>s. None), localeCompare = (\<lambda>a b. 0),
      trim = (\<lambda>s. s), engine_sort = (\<lambda>cmp xs. xs)\<rparr> ''total sales'' \<noteq> [] \<and> trim \<lparr>num_str = (\<lambda>x. []), str_num = (\<lambda>s. None), localeCompare = (\<lambda>a b. 0),
      trim = (\<lambda>s. s), engine_sort = (\<lambda>cmp xs. xs)\<rparr> ''add total'' \<noteq> [] \<and>
   q_result (fst (handleSubmit \<lparr>num_str = (\<lambda>x. []), str_num = (\<lambda>s. None), localeCompare = (\<lambda>a b. 0),
      trim = (\<lambda>s. s), engine_sort = (\<lambda>cmp xs. xs)\<rparr> (\<lambda>q srv. (Inl (ErrorObj ''Network Error''), srv)) True
      (\<lparr>q_query = ''total sales'', q_loading = False, q_result = None, q_history = []\<rparr>, ())))
     = Some \<lparr>qr_query = ''total sales'', qr_result_type = Error, qr_data = Scalar Null,
             qr_explanation = ''Network Error'', qr_pandas_code = None,
             qr_execution_time_ms = 0\<rparr> \<and>
   e_result (fst (handleModify \<lparr>num_str = (\<lambda>x. []), str_num = (\<lambda>s. None), localeCompare = (\<lambda>a b. 0),
      trim = (\<lambda>s. s), engine_sort = (\<lambda>cmp xs. xs)\<rparr> (\<lambda>c srv. (Inl (ErrorObj ''Network Error''), srv)) True
      (\<lparr>e_command = ''add total'', e_loading = False, e_result = None\<rparr>, ())))
     = Some \<lparr>m_success = False, m_message = ''Network Error'', m_changes_made = [],
             m_rows_affected = 0, m_pandas_code = None\<rparr>"
proof -
  let ?B = "\<lparr>num_str = (\<lambda>x. []), str_num = (\<lambda>s. None), localeCompare = (\<lambda>a b. 0),
      trim = (\<lambda>s. s), engine_sort = (\<lambda>cmp xs. xs)\<rparr>"
  have a: "trim ?B ''total sales'' \<noteq> []" and b: "trim ?B ''add total'' \<noteq> []"
    by simp_all
  have a': "trim ?B (q_query \<lparr>q_query = ''total sales'', q_loading = False, q_result = None,
                            q_history = []\<rparr>) \<noteq> []"
    by simp
  have b': "trim ?B (e_command \<lparr>e_command = ''add total'', e_loading = False, e_result = None\<rparr>) \<noteq> []"
    by simp
  have c: "\<not> q_loading \<lparr>q_query = ''total sales'', q_loading = False, q_result = None,
                           q_history = []\<rparr>"
    and d: "\<not> e_loading \<lparr>e_command = ''add total'', e_loading = False, e_result = None\<rparr>"
    by simp_all
  note t = failures_become_error_results [OF a' c b' d,
      where queryDataset = "\<lambda>q srv. (Inl (ErrorObj ''Network Error''), srv)"
        and modifyData = "\<lambda>c srv. (Inl (ErrorObj ''Network Error''), srv)"
        and srv = "()" and ?srv2.0 = "()" and m = "''Network Error''" and h = True and ?h2.0 = True]
  show ?thesis using a b t by simp
qed

section \<open>Modification commands\<close>

text \<open>What the endpoint does to the store, and what the handler does with the request.\<close>

lemma modify_endpoint_atomic:
  "\<exists>r. fst (modify_endpoint translate dataset_id c st) = Inr r \<and>
        (\<not> m_success r \<longrightarrow> snd (modify_endpoint translate dataset_id c st) = st) \<and>
        (m_success r \<longrightarrow>
           (\<exists>ds run code ds' msg ch n. st dataset_id = Some ds \<and> translate ds c = Inr (run, code)
              \<and> run ds = Inr (ds', msg, ch, n)
              \<and> snd (modify_endpoint translate dataset_id c st) = st(dataset_id \<mapsto> ds')))"
  by (auto simp: modify_endpoint_def modify_failure_def split: option.splits sum.splits)

lemma handleModify_runs_request:
  assumes "trim B (e_command es) \<noteq> []" and "\<not> e_loading es"
  shows "fst (snd (handleModify B md h (es, s))) = snd (md (trim B (e_command es)) s)"
    and "OnModifySuccess \<in> set (snd (snd (handleModify B md h (es, s))))
           \<longleftrightarrow> h \<and> (\<exists>r. fst (md (trim B (e_command es)) s) = Inr r \<and> m_success r)"
    and "fst (md (trim B (e_command es)) s) = Inr r
           \<Longrightarrow> e_result (fst (handleModify B md h (es, s))) = Some r"
    and "filter (\<lambda>e. e \<noteq> OnModifySuccess) (snd (snd (handleModify B md h (es, s))))
           = [ModifyRequest (trim B (e_command es))]"
  using assms
  by (cases "md (trim B (e_command es)) s"; cases "fst (md (trim B (e_command es)) s)";
      auto simp: handleModify_def Let_def)+

text \<open>
  Claim C2.  A modify command is all or nothing for its caller.  The endpoint always
  answers with a result; when the result has \<open>success = false\<close> the store is as before,
  and when it has \<open>success = true\<close> the dataset of the store is the one the interpreted
  command produced.  The modification box (the guard of the handler passed: the command
  trimmed is not empty, no request is in flight) sends the command once, leaves the
  server as the request left it and shows the result of the request; with the callback
  given, \<open>onModifySuccess\<close> is invoked if and only if the request answered with a result
  that has \<open>success = true\<close>, and without the callback nothing is invoked.  Run against
  the endpoint: when the refresh is triggered the dataset in the store is the one the
  interpreted command produced, and when it is not triggered the store is unchanged.
\<close>

theorem modify_is_atomic_and_refresh_iff_success:
  assumes "trim B (e_command es) \<noteq> []" and "\<not> e_loading es"
  shows "(\<exists>r. fst (modify_endpoint translate dataset_id command st) = Inr r \<and>
            (\<not> m_success r \<longrightarrow> snd (modify_endpoint translate dataset_id command st) = st) \<and>
            (m_success r \<longrightarrow>
               (\<exists>ds run code ds' msg ch n. st dataset_id = Some ds \<and> translate ds command = Inr (run, code)
                  \<and> run ds = Inr (ds', msg, ch, n)
                  \<and> snd (modify_endpoint translate dataset_id command st) = st(dataset_id \<mapsto> ds'))))
       \<and> (OnModifySuccess \<in> set (snd (snd (handleModify B modifyData True (es, srv))))
            \<longleftrightarrow> (\<exists>r. fst (modifyData (trim B (e_command es)) srv) = Inr r \<and> m_success r))
       \<and> OnModifySuccess \<notin> set (snd (snd (handleModify B modifyData False (es, srv))))
       \<and> fst (snd (handleModify B modifyData h (es, srv)))
            = snd (modifyData (trim B (e_command es)) srv)
       \<and> filter (\<lambda>e. e \<noteq> OnModifySuccess) (snd (snd (handleModify B modifyData h (es, srv))))
            = [ModifyRequest (trim B (e_command es))]
       \<and> (fst (modifyData (trim B (e_command es)) srv) = Inr res \<longrightarrow>
            e_result (fst (handleModify B modifyData h (es, srv))) = Some res)
       \<and> (OnModifySuccess \<in>
             set (snd (snd (handleModify B (modify_endpoint translate dataset_id) True (es, st))))
            \<longrightarrow> (\<exists>ds run code ds' msg ch n. st dataset_id = Some ds
                  \<and> translate ds (trim B (e_command es)) = Inr (run, code)
                  \<and> run ds = Inr (ds', msg, ch, n)
                  \<and> fst (snd (handleModify B (modify_endpoint translate dataset_id) True (es, st)))
                      = st(dataset_id \<mapsto> ds')))
       \<and> (OnModifySuccess \<notin>
             set (snd (snd (handleModify B (modify_endpoint translate dataset_id) True (es, st))))
            \<longrightarrow> fst (snd (handleModify B (modify_endpoint translate dataset_id) True (es, st))) = st)"
proof -
  note run = handleModify_runs_request [OF assms]
  have iff: "OnModifySuccess \<in> set (snd (snd (handleModify B modifyData True (es, srv))))
            \<longleftrightarrow> (\<exists>r. fst (modifyData (trim B (e_command es)) srv) = Inr r \<and> m_success r)"
    using run(2) [of modifyData True srv] by simp
  have nocb: "OnModifySuccess \<notin> set (snd (snd (handleModify B modifyData False (es, srv))))"
    using run(2) [of modifyData False srv] by simp
  have srv: "fst (snd (handleModify B modifyData h (es, srv)))
            = snd (modifyData (trim B (e_command es)) srv)"
    by (rule run(1))
  have once: "filter (\<lambda>e. e \<noteq> OnModifySuccess) (snd (snd (handleModify B modifyData h (es, srv))))
            = [ModifyRequest (trim B (e_command es))]"
    by (rule run(4))
  have shown: "fst (modifyData (trim B (e_command es)) srv) = Inr res \<longrightarrow>
            e_result (fst (handleModify B modifyData h (es, srv))) = Some res"
    using run(3) [of modifyData srv res h] by simp
  have e2e_iff: "OnModifySuccess \<in>
             set (snd (snd (handleModify B (modify_endpoint translate dataset_id) True (es, st))))
            \<longleftrightarrow> (\<exists>r. fst (modify_endpoint translate dataset_id (trim B (e_command es)) st) = Inr r
                    \<and> m_success r)"
    using run(2) [of "modify_endpoint translate dataset_id" True st] by simp
  have e2e_srv: "fst (snd (handleModify B (modify_endpoint translate dataset_id) True (es, st)))
            = snd (modify_endpoint translate dataset_id (trim B (e_command es)) st)"
    by (rule run(1))
  have ok: "OnModifySuccess \<in>
             set (snd (snd (handleModify B (modify_endpoint translate dataset_id) True (es, st))))
            \<longrightarrow> (\<exists>ds run code ds' msg ch n. st dataset_id = Some ds
                  \<and> translate ds (trim B (e_command es)) = Inr (run, code)
                  \<and> run ds = Inr (ds', msg, ch, n)
                  \<and> fst (snd (handleModify B (modify_endpoint translate dataset_id) True (es, st)))
                      = st(dataset_id \<mapsto> ds'))"
    using modify_endpoint_atomic [of translate dataset_id "trim B (e_command es)" st]
    unfolding e2e_iff e2e_srv by auto
  have ko: "OnModifySuccess \<notin>
             set (snd (snd (handleModify B (modify_endpoint translate dataset_id) True (es, st))))
            \<longrightarrow> fst (snd (handleModify B (modify_endpoint translate dataset_id) True (es, st))) = st"
    using modify_endpoint_atomic [of translate dataset_id "trim B (e_command es)" st]
    unfolding e2e_iff e2e_srv by auto
  show ?thesis
    using modify_endpoint_atomic [of translate dataset_id command st] iff nocb srv once shown ok ko
    by (intro conjI)
qed

theorem modify_is_atomic_and_refresh_iff_success_witness:
  "trim \<lparr>num_str = (\<lambda>x. []), str_num = (\<lambda>s. None), localeCompare = (\<lambda>a b. 0),
      trim = (\<lambda>s. s), engine_sort = (\<lambda>cmp xs. xs)\<rparr> ''add total'' \<noteq> [] \<and>
   OnModifySuccess \<in> set (snd (snd (handleModify \<lparr>num_str = (\<lambda>x. []), str_num = (\<lambda>s. None), localeCompare = (\<lambda>a b. 0),
      trim = (\<lambda>s. s), engine_sort = (\<lambda>cmp xs. xs)\<rparr>
      (modify_endpoint (\<lambda>ds c. Inr (\<lambda>d. Inr (d\<lparr>ds_columns := ds_columns d @ [''total'']\<rparr>, ''ok'', ''added total'', 1), ''df.total''))
         ''d1'')
      True
      (\<lparr>e_command = ''add total'', e_loading = False, e_result = None\<rparr>,
       [''d1'' \<mapsto> \<lparr>ds_columns = [''price''], ds_rows = [[(''price'', Num 2)]]\<rparr>])))) \<and>
   fst (snd (handleModify \<lparr>num_str = (\<lambda>x. []), str_num = (\<lambda>s. None), localeCompare = (\<lambda>a b. 0),
      trim = (\<lambda>s. s), engine_sort = (\<lambda>cmp xs. xs)\<rparr>
      (modify_endpoint (\<lambda>ds c. Inr (\<lambda>d. Inr (d\<lparr>ds_columns := ds_columns d @ [''total'']\<rparr>, ''ok'', ''added total'', 1), ''df.total''))
         ''d1'')
      True
      (\<lparr>e_command = ''add total'', e_loading = False, e_result = None\<rparr>,
       [''d1'' \<mapsto> \<lparr>ds_columns = [''price''], ds_rows = [[(''price'', Num 2)]]\<rparr>]))) ''d1''
     = Some \<lparr>ds_columns = [''price'', ''total''], ds_rows = [[(''price'', Num 2)]]\<rparr> \<and>
   fst (snd (handleModify \<lparr>num_str = (\<lambda>x. []), str_num = (\<lambda>s. None), localeCompare = (\<lambda>a b. 0),
      trim = (\<lambda>s. s), engine_sort = (\<lambda>cmp xs. xs)\<rparr>
      (modify_endpoint (\<lambda>ds c. Inr (\<lambda>d. Inl ''KeyError'', ''df.total'')) ''d1'')
      True
      (\<lparr>e_command = ''add total'', e_loading = False, e_result = None\<rparr>,
       [''d1'' \<mapsto> \<lparr>ds_columns = [''price''], ds_rows = [[(''price'', Num 2)]]\<rparr>])))
     = [''d1'' \<mapsto> \<lparr>ds_columns = [''price''], ds_rows = [[(''price'', Num 2)]]\<rparr>]"
proof -
  let ?B = "\<lparr>num_str = (\<lambda>x. []), str_num = (\<lambda>s. None), localeCompare = (\<lambda>a b. 0),
      trim = (\<lambda>s. s), engine_sort = (\<lambda>cmp xs. xs)\<rparr>"
  let ?es = "\<lparr>e_command = ''add total'', e_loading = False, e_result = None\<rparr>"
  let ?st = "[''d1'' \<mapsto> \<lparr>ds_columns = [''price''], ds_rows = [[(''price'', Num 2)]]\<rparr>]"
  let ?good = "\<lambda>(ds :: dataset) (c :: string).
      (Inr (\<lambda>d. Inr (d\<lparr>ds_columns := ds_columns d @ [''total'']\<rparr>, ''ok'', ''added total'', 1),
            ''df.total'') :: string + snippet \<times> string)"
  let ?bad = "\<lambda>(ds :: dataset) (c :: string).
      (Inr (\<lambda>d. Inl ''KeyError'', ''df.total'') :: string + snippet \<times> string)"
  have g: "trim ?B ''add total'' \<noteq> []" by simp
  have a: "trim ?B (e_command ?es) \<noteq> []" by simp
  have b: "\<not> e_loading ?es" by simp
  note t1 = modify_is_atomic_and_refresh_iff_success [OF a b,
      where modifyData = "modify_endpoint ?good ''d1''" and srv = ?st and h = True
        and translate = ?good and dataset_id = "''d1''" and st = ?st]
  note t2 = modify_is_atomic_and_refresh_iff_success [OF a b,
      where translate = ?bad and dataset_id = "''d1''" and st = ?st]
  have s1: "OnModifySuccess \<in> set (snd (snd (handleModify ?B (modify_endpoint ?good ''d1'') True
              (?es, ?st))))"
    using t1 [THEN conjunct2, THEN conjunct1] by (simp add: modify_endpoint_def)
  have u1: "fst (snd (handleModify ?B (modify_endpoint ?good ''d1'') True (?es, ?st))) ''d1''
              = Some \<lparr>ds_columns = [''price'', ''total''], ds_rows = [[(''price'', Num 2)]]\<rparr>"
    using t1 [THEN conjunct2, THEN conjunct2, THEN conjunct2, THEN conjunct1]
    by (simp add: modify_endpoint_def)
  have n2: "OnModifySuccess \<notin> set (snd (snd (handleModify ?B (modify_endpoint ?bad ''d1'') True
              (?es, ?st))))"
    by (simp add: handleModify_def modify_endpoint_def modify_failure_def)
  have e: "fst (snd (handleModify ?B (modify_endpoint ?bad ''d1'') True (?es, ?st))) = ?st"
    by (rule mp [OF t2 [THEN conjunct2, THEN conjunct2, THEN conjunct2, THEN conjunct2,
                        THEN conjunct2, THEN conjunct2, THEN conjunct2] n2])
  show ?thesis using g s1 u1 e by (intro conjI)
qed

section \<open>Query results\<close>

text \<open>
  Claim C5, as the code has it.  A query result is a query string, a result kind, a
  payload, an explanation string, an optional generated-code string and an elapsed
  time, and its kind is one of exactly four, whose discriminants are \<^verbatim>\<open>"table"\<close>, \<^verbatim>\<open>"value"\<close>,
  \<^verbatim>\<open>"text"\<close> and \<^verbatim>\<open>"error"\<close>: the kind the spec calls scalar is \<^verbatim>\<open>"value"\<close>.  The four are
  different strings, and \<open>renderResult\<close> renders each kind in its own branch, the
  \<^verbatim>\<open>default\<close> branch of its \<^verbatim>\<open>switch\<close> being left to values outside the type.
\<close>

theorem query_result_shape:
  "(\<exists>q k d e c t. r = \<lparr>qr_query = q, qr_result_type = k, qr_data = d, qr_explanation = e,
                        qr_pandas_code = c, qr_execution_time_ms = t\<rparr>
                    \<and> k \<in> {Table, Value, Text, Error})
   \<and> (UNIV :: result_type set) = {Table, Value, Text, Error}
   \<and> card (UNIV :: result_type set) = 4
   \<and> map result_type_name [Table, Value, Text, Error] = [''table'', ''value'', ''text'', ''error'']
   \<and> inj result_type_name
   \<and> renderResult (Some r) =
       (case qr_result_type r of
          Table \<Rightarrow> (case qr_data r of
                      Rows (first # rest) \<Rightarrow> TableView (first # rest) (keys first)
                    | _ \<Rightarrow> NoDataReturned)
        | Value \<Rightarrow> ValueView (qr_data r)
        | Text \<Rightarrow> TextView (qr_data r)
        | Error \<Rightarrow> ErrorView (qr_explanation r))"
proof -
  have u: "(UNIV :: result_type set) = {Table, Value, Text, Error}"
    using result_type.exhaust by auto
  have c: "card (UNIV :: result_type set) = 4"
    unfolding u by simp
  have i: "inj result_type_name"
  proof (rule injI)
    fix a b assume "result_type_name a = result_type_name b"
    then show "a = b" by (cases a; cases b) simp_all
  qed
  have s: "\<exists>q k d e c t. r = \<lparr>qr_query = q, qr_result_type = k, qr_data = d, qr_explanation = e,
                        qr_pandas_code = c, qr_execution_time_ms = t\<rparr>
                    \<and> k \<in> {Table, Value, Text, Error}"
    using u by (cases r) auto
  have v: "renderResult (Some r) =
       (case qr_result_type r of
          Table \<Rightarrow> (case qr_data r of
                      Rows (first # rest) \<Rightarrow> TableView (first # rest) (keys first)
                    | _ \<Rightarrow> NoDataReturned)
        | Value \<Rightarrow> ValueView (qr_data r)
        | Text \<Rightarrow> TextView (qr_data r)
        | Error \<Rightarrow> ErrorView (qr_explanation r))"
    by (cases "qr_result_type r") (simp_all add: renderResult_def render_switch_def)
  show ?thesis using u c i s v by simp
qed

text \<open>
  The claim as stated lists \<^verbatim>\<open>scalar\<close> among the discriminants.  The discriminant of a
  result of the value kind is \<^verbatim>\<open>"value"\<close>; \<^verbatim>\<open>"scalar"\<close> is none of the four, and a result
  tagged with it is rendered by the \<^verbatim>\<open>default\<close> branch, as raw JSON.
\<close>

theorem scalar_is_not_a_discriminant_counterexample:
  "result_type_name (qr_result_type
      \<lparr>qr_query = ''average price'', qr_result_type = Value, qr_data = Scalar (Num 42),
       qr_explanation = ''The mean of price'', qr_pandas_code = Some ''df.price.mean()'',
       qr_execution_time_ms = 12\<rparr>)
     \<notin> set [''table'', ''scalar'', ''text'', ''error'']
   \<and> ''scalar'' \<notin> set (map result_type_name [Table, Value, Text, Error])
   \<and> render_switch ''scalar''
       \<lparr>qr_query = ''average price'', qr_result_type = Value, qr_data = Scalar (Num 42),
        qr_explanation = ''The mean of price'', qr_pandas_code = Some ''df.price.mean()'',
        qr_execution_time_ms = 12\<rparr>
     = RawView (Scalar (Num 42))"
  by (simp add: render_switch_def)

section \<open>Failed chart requests\<close>

lemma chart_endpoint_missing_column:
  assumes "st dataset_id = Some ds" and "plan ds q = Inr (config, expl)"
      and "c \<in> set (referenced_columns config)" and "c \<notin> set (ds_columns ds)"
  shows "\<exists>r e. chart_endpoint plan dataset_id q st = (Inr r, st) \<and> \<not> cr_success r
           \<and> cr_error r = Some e \<and> e \<noteq> []"
proof -
  have "filter (\<lambda>c. c \<notin> set (ds_columns ds)) (referenced_columns config) \<noteq> []"
    using assms(3,4) by (auto simp: filter_empty_conv)
  then obtain c' cs where
    "filter (\<lambda>c. c \<notin> set (ds_columns ds)) (referenced_columns config) = c' # cs"
    by (cases "filter (\<lambda>c. c \<notin> set (ds_columns ds)) (referenced_columns config)") auto
  then show ?thesis
    using assms(1,2) by (simp add: chart_endpoint_def chart_failure_def)
qed

lemma handleGenerate_failure:
  assumes "trim B (c_query st) \<noteq> []" and "\<not> c_loading st"
      and "generateChart (trim B (c_query st)) srv = (Inr r, srv')" and "\<not> cr_success r"
  shows "fst (handleGenerate B generateChart (st, srv))
           = st\<lparr>c_error := str_or (cr_error r) (Some ''Failed to generate chart'')\<rparr>"
  using assms by (simp add: handleGenerate_def Let_def)

text \<open>
  Claim C4, as the code has it.  A chart request whose configuration names a column that
  is not in the column list of the dataset is answered with \<open>success = false\<close> and a
  non-empty error text, the store untouched.  For every response with \<open>success = false\<close>
  (the guard of the handler passed: the text trimmed is not empty, no request is in
  flight) the panel shows the error text of the response,
  "Failed to generate chart" when the text is absent or empty, and \<open>chartData\<close> stays what
  it was: the failed response is neither stored nor rendered, and no chart is on the
  screen unless an earlier request had put one there.
\<close>

theorem failed_chart_shows_error_keeps_chart:
  assumes "trim B (c_query st) \<noteq> []" and "\<not> c_loading st"
  shows "(store dataset_id = Some ds \<and> plan ds q = Inr (config, expl)
            \<and> c \<in> set (referenced_columns config) \<and> c \<notin> set (ds_columns ds) \<longrightarrow>
            (\<exists>r e. chart_endpoint plan dataset_id q store = (Inr r, store) \<and> \<not> cr_success r
               \<and> cr_error r = Some e \<and> e \<noteq> []))
       \<and> (fst (generateChart (trim B (c_query st)) srv) = Inr r \<and> \<not> cr_success r \<longrightarrow>
            error_box (fst (handleGenerate B generateChart (st, srv)))
              = Some (case cr_error r of
                        None \<Rightarrow> ''Failed to generate chart''
                      | Some e \<Rightarrow> if e = [] then ''Failed to generate chart'' else e)
            \<and> chartData (fst (handleGenerate B generateChart (st, srv))) = chartData st
            \<and> chart_card B (fst (handleGenerate B generateChart (st, srv))) = chart_card B st
            \<and> (chartData st = None \<longrightarrow>
                  chart_card B (fst (handleGenerate B generateChart (st, srv))) = None))"
proof -
  have front: "error_box (fst (handleGenerate B generateChart (st, srv)))
              = Some (case cr_error r of
                        None \<Rightarrow> ''Failed to generate chart''
                      | Some e \<Rightarrow> if e = [] then ''Failed to generate chart'' else e)
            \<and> chartData (fst (handleGenerate B generateChart (st, srv))) = chartData st
            \<and> chart_card B (fst (handleGenerate B generateChart (st, srv))) = chart_card B st
            \<and> (chartData st = None \<longrightarrow>
                  chart_card B (fst (handleGenerate B generateChart (st, srv))) = None)"
    if r: "fst (generateChart (trim B (c_query st)) srv) = Inr r" "\<not> cr_success r"
  proof -
    obtain srv' where g: "generateChart (trim B (c_query st)) srv = (Inr r, srv')"
      using r(1) by (cases "generateChart (trim B (c_query st)) srv") auto
    have h: "fst (handleGenerate B generateChart (st, srv))
           = st\<lparr>c_error := str_or (cr_error r) (Some ''Failed to generate chart'')\<rparr>"
      using assms g r(2) by (rule handleGenerate_failure)
    show ?thesis
      unfolding h
      by (auto simp: error_box_def chart_card_def chart_shown_def str_or_def split: option.splits)
  qed
  show ?thesis
    using chart_endpoint_missing_column [of store dataset_id ds plan q config expl c] front
    by blast
qed

theorem failed_chart_shows_error_keeps_chart_witness:
  "trim \<lparr>num_str = (\<lambda>x. []), str_num = (\<lambda>s. None), localeCompare = (\<lambda>a b. 0),
      trim = (\<lambda>s. s), engine_sort = (\<lambda>cmp xs. xs)\<rparr>
      ''bar chart of sales by region'' \<noteq> [] \<and>
   error_box (fst (handleGenerate
     \<lparr>num_str = (\<lambda>x. []), str_num = (\<lambda>s. None), localeCompare = (\<lambda>a b. 0),
      trim = (\<lambda>s. s), engine_sort = (\<lambda>cmp xs. xs)\<rparr>
     (chart_endpoint (\<lambda>ds q. Inr (\<lparr>chart_type = Bar, title = ''Sales'', x_axis = Some ''region'',
                                      y_axis = Some ''sales'', x_label = None, y_label = None\<rparr>,
                                    ''sales by region'')) ''d1'')
     (\<lparr>c_query = ''bar chart of sales by region'', c_loading = False, chartData = None,
       c_error = None\<rparr>,
      [''d1'' \<mapsto> \<lparr>ds_columns = [''sales''], ds_rows = [[(''sales'', Num 1)]]\<rparr>])))
     = Some ''Column not found in dataset: region'' \<and>
   chart_card \<lparr>num_str = (\<lambda>x. []), str_num = (\<lambda>s. None), localeCompare = (\<lambda>a b. 0),
      trim = (\<lambda>s. s), engine_sort = (\<lambda>cmp xs. xs)\<rparr>
     (fst (handleGenerate
     \<lparr>num_str = (\<lambda>x. []), str_num = (\<lambda>s. None), localeCompare = (\<lambda>a b. 0),
      trim = (\<lambda>s. s), engine_sort = (\<lambda>cmp xs. xs)\<rparr>
     (chart_endpoint (\<lambda>ds q. Inr (\<lparr>chart_type = Bar, title = ''Sales'', x_axis = Some ''region'',
                                      y_axis = Some ''sales'', x_label = None, y_label = None\<rparr>,
                                    ''sales by region'')) ''d1'')
     (\<lparr>c_query = ''bar chart of sales by region'', c_loading = False, chartData = None,
       c_error = None\<rparr>,
      [''d1'' \<mapsto> \<lparr>ds_columns = [''sales''], ds_rows = [[(''sales'', Num 1)]]\<rparr>])))
     = None"
proof -
  let ?st = "\<lparr>c_query = ''bar chart of sales by region'', c_loading = False, chartData = None,
              c_error = None\<rparr>"
  let ?cfg = "\<lparr>chart_type = Bar, title = ''Sales'', x_axis = Some ''region'',
               y_axis = Some ''sales'', x_label = None, y_label = None\<rparr>"
  let ?plan = "\<lambda>(ds :: dataset) (q :: string). (Inr (?cfg, ''sales by region'') :: string + ChartConfig \<times> string)"
  let ?store = "[''d1'' \<mapsto> \<lparr>ds_columns = [''sales''], ds_rows = [[(''sales'', Num 1)]]\<rparr>]"
  let ?B = "\<lparr>num_str = (\<lambda>x. []), str_num = (\<lambda>s. None), localeCompare = (\<lambda>a b. 0),
      trim = (\<lambda>s. s), engine_sort = (\<lambda>cmp xs. xs)\<rparr>"
  let ?r = "chart_failure ?cfg ''Column not found in dataset: region''"
  have g: "trim ?B ''bar chart of sales by region'' \<noteq> []"
    by simp
  have a: "trim ?B (c_query ?st) \<noteq> []" by simp
  have b: "\<not> c_loading ?st" by simp
  have resp: "fst (chart_endpoint ?plan ''d1'' (trim ?B (c_query ?st)) ?store) = Inr ?r \<and> \<not> cr_success ?r"
    by (simp add: chart_endpoint_def referenced_columns_def chart_failure_def)
  note t = failed_chart_shows_error_keeps_chart [OF a b,
      where generateChart = "chart_endpoint ?plan ''d1''" and srv = ?store and r = ?r,
      THEN conjunct2, THEN mp, OF resp]
  have e: "error_box (fst (handleGenerate ?B (chart_endpoint ?plan ''d1'') (?st, ?store)))
             = Some ''Column not found in dataset: region''"
    using t [THEN conjunct1] by (simp add: chart_failure_def)
  have c: "chart_card ?B (fst (handleGenerate ?B (chart_endpoint ?plan ''d1'') (?st, ?store))) = None"
    using t [THEN conjunct2, THEN conjunct2, THEN conjunct2] by simp
  show ?thesis using g e c by (intro conjI)
qed

text \<open>
  The claim as stated, "does not render any chart", fails in a panel that already shows
  a chart: after the failed request the chart card is still rendered, under the error.
\<close>

theorem failed_chart_counterexample:
  "\<not> cr_success \<lparr>cr_success = False, cr_config = no_chart, cr_data = [], cr_explanation = [],
                   cr_error = Some ''Column not found in dataset: region''\<rparr> \<and>
   chart_shown (fst (handleGenerate
     \<lparr>num_str = (\<lambda>x. []), str_num = (\<lambda>s. None), localeCompare = (\<lambda>a b. 0),
      trim = (\<lambda>s. s), engine_sort = (\<lambda>cmp xs. xs)\<rparr>
     (\<lambda>q srv. (Inr \<lparr>cr_success = False, cr_config = no_chart, cr_data = [], cr_explanation = [],
                     cr_error = Some ''Column not found in dataset: region''\<rparr>, srv))
     (\<lparr>c_query = ''bar chart of sales by region'', c_loading = False,
       chartData = Some \<lparr>cr_success = True, cr_config = no_chart,
                          cr_data = [[(''sales'', Num 1)]], cr_explanation = [],
                          cr_error = None\<rparr>,
       c_error = None\<rparr>, ())))"
  by (simp add: handleGenerate_def chart_shown_def str_or_def)


section \<open>Chart kinds\<close>




section \<open>Pie charts\<close>

text \<open>The sort is a permutation; with the comparator of the pie branch it orders by falling value.\<close>

lemma mset_insert_by: "mset (insert_by cmp x xs) = add_mset x (mset xs)"
  by (induction xs) simp_all

lemma mset_js_sort: "mset (js_sort cmp xs) = mset xs"
  unfolding js_sort_def by (induction xs) (simp_all add: mset_insert_by)

lemma set_insert_by: "set (insert_by cmp x xs) = insert x (set xs)"
  using mset_insert_by [of cmp x xs] by (metis set_mset_add_mset_insert set_mset_mset)

lemma length_js_sort: "length (js_sort cmp xs) = length xs"
  using mset_js_sort [of cmp xs] by (metis size_mset)

lemma sorted_insert_by_pie:
  assumes "sorted_wrt (\<lambda>a b. pie_value B k b \<le> pie_value B k a) xs"
  shows "sorted_wrt (\<lambda>a b. pie_value B k b \<le> pie_value B k a) (insert_by (pie_cmp B k) x xs)"
  using assms
proof (induction xs)
  case Nil
  then show ?case by simp
next
  case (Cons y ys)
  show ?case
  proof (cases "pie_cmp B k x y \<le> 0")
    case True
    then have xy: "pie_value B k y \<le> pie_value B k x" by (simp add: pie_cmp_def)
    have "\<forall>z\<in>set ys. pie_value B k z \<le> pie_value B k x"
      using Cons.prems xy by auto
    then show ?thesis using True xy Cons.prems by simp
  next
    case False
    then have yx: "pie_value B k x \<le> pie_value B k y" by (simp add: pie_cmp_def)
    have "sorted_wrt (\<lambda>a b. pie_value B k b \<le> pie_value B k a) (insert_by (pie_cmp B k) x ys)"
      using Cons by simp
    then show ?thesis using False yx Cons.prems by (simp add: set_insert_by)
  qed
qed

lemma sorted_js_sort_pie:
  "sorted_wrt (\<lambda>a b. pie_value B k b \<le> pie_value B k a) (js_sort (pie_cmp B k) xs)"
  unfolding js_sort_def by (induction xs) (simp_all add: sorted_insert_by_pie)

text \<open>The comparator of the pie branch is a consistent ordering of any data.\<close>

lemma pie_cmp_consistent: "consistent_on (pie_cmp B k) xs"
  by (auto simp: consistent_on_def list_all_iff pie_cmp_def)

lemma pieData_length: "length (pieData B k d) = min 10 (length d)"
  by (simp add: pieData_def length_js_sort min.commute)

lemma pieData_sorted:
  "sorted_wrt (\<lambda>a b. pie_value B k b \<le> pie_value B k a) (pieData B k d)"
  unfolding pieData_def
  using sorted_js_sort_pie [of B k d] by (metis append_take_drop_id sorted_wrt_append)

lemma pieData_rest:
  "mset d = mset (pieData B k d) + mset (drop 10 (js_sort (pie_cmp B k) d))"
  unfolding pieData_def
  by (metis append_take_drop_id mset_append mset_js_sort)

lemma pieData_largest:
  assumes "x \<in> set (pieData B k d)" and "y \<in># mset d - mset (pieData B k d)"
  shows "pie_value B k y \<le> pie_value B k x"
proof -
  have "mset d - mset (pieData B k d) = mset (drop 10 (js_sort (pie_cmp B k) d))"
    using pieData_rest [of d B k] by simp
  then have y: "y \<in> set (drop 10 (js_sort (pie_cmp B k) d))"
    using assms(2) by simp
  have "sorted_wrt (\<lambda>a b. pie_value B k b \<le> pie_value B k a)
          (take 10 (js_sort (pie_cmp B k) d) @ drop 10 (js_sort (pie_cmp B k) d))"
    using sorted_js_sort_pie [of B k d] by simp
  then show ?thesis
    using assms(1) y unfolding pieData_def sorted_wrt_append by blast
qed

lemma pieData_heap_result:
  assumes "dataRef < length h"
  shows "pieData_heap B k dataRef h
           = (Suc (length h), h @ [js_sort (pie_cmp B k) (h ! dataRef), pieData B k (h ! dataRef)])"
  using assms
  by (simp add: pieData_heap_def spread_def alloc_def sort_in_place_def slice_def pieData_def
      nth_append)


text \<open>
  The value a record is ranked by is \<^verbatim>\<open>Number(row[yKey]) || 0\<close>: a number counts as
  itself; a missing field, \<^verbatim>\<open>null\<close>, \<^verbatim>\<open>false\<close> and any string that is not a numeric
  literal count as 0; \<^verbatim>\<open>true\<close> converts to 1 and a numeric string to its number.
\<close>

lemma pie_value_cases:
  "get r k = Num x \<Longrightarrow> pie_value B k r = x"
  "get r k = Undefined \<Longrightarrow> pie_value B k r = 0"
  "get r k = Null \<Longrightarrow> pie_value B k r = 0"
  "get r k = Bool b \<Longrightarrow> pie_value B k r = (if b then 1 else 0)"
  "get r k = Str s \<Longrightarrow> str_num B s = None \<Longrightarrow> pie_value B k r = 0"
  by (simp_all add: pie_value_def or_zero_def)

text \<open>
  Claim C10.  For a chart response of kind pie with data that is not empty, the pie that
  is rendered has at most 10 slices (10, or all the records when there are fewer); they
  are records of the data, in falling order of the number read from the y-axis field, a
  value that is not numeric (\<^verbatim>\<open>Number\<close> gives \<^verbatim>\<open>NaN\<close>) counting as 0; every record left out has a
  value no larger than every record shown.  The selection works on a copy: the array
  of the chart data, and every other array there was, is the same afterwards.
\<close>

theorem pie_chart_top_ten:
  assumes "chart_type (cr_config resp) = Pie" and "cr_data resp = first # rest"
      and "dataRef < length h" and "h ! dataRef = cr_data resp"
      and "yKey = yKey_of (cr_config resp) first"
  shows "renderChart B (Some resp)
           = PieChart (pieData B yKey (cr_data resp)) (xKey_of (cr_config resp) first) yKey
       \<and> length (pieData B yKey (cr_data resp)) = min 10 (length (cr_data resp))
       \<and> length (pieData B yKey (cr_data resp)) \<le> 10
       \<and> mset (pieData B yKey (cr_data resp)) \<subseteq># mset (cr_data resp)
       \<and> sorted_wrt (\<lambda>a b. pie_value B yKey b \<le> pie_value B yKey a) (pieData B yKey (cr_data resp))
       \<and> (\<forall>x \<in> set (pieData B yKey (cr_data resp)).
            \<forall>y \<in># mset (cr_data resp) - mset (pieData B yKey (cr_data resp)).
              pie_value B yKey y \<le> pie_value B yKey x)
       \<and> (js_Number B (get r yKey) = None \<longrightarrow> pie_value B yKey r = 0)
       \<and> snd (pieData_heap B yKey dataRef h) ! fst (pieData_heap B yKey dataRef h)
            = pieData B yKey (cr_data resp)
       \<and> snd (pieData_heap B yKey dataRef h) ! dataRef = cr_data resp
       \<and> take (length h) (snd (pieData_heap B yKey dataRef h)) = h"
proof -
  have view: "renderChart B (Some resp)
           = PieChart (pieData B yKey (cr_data resp)) (xKey_of (cr_config resp) first) yKey"
    using assms(1,2,5) by (simp add: renderChart_def chart_switch_def)
  have sub: "mset (pieData B yKey (cr_data resp)) \<subseteq># mset (cr_data resp)"
    using pieData_rest [of "cr_data resp" B yKey] by (metis mset_subset_eq_add_left)
  have nan: "js_Number B (get r yKey) = None \<longrightarrow> pie_value B yKey r = 0"
    by (simp add: pie_value_def or_zero_def)
  have heap: "snd (pieData_heap B yKey dataRef h) ! fst (pieData_heap B yKey dataRef h)
            = pieData B yKey (cr_data resp)
       \<and> snd (pieData_heap B yKey dataRef h) ! dataRef = cr_data resp
       \<and> take (length h) (snd (pieData_heap B yKey dataRef h)) = h"
    using assms(3,4) by (simp add: pieData_heap_result [OF assms(3)] nth_append)
  show ?thesis
    using view sub nan heap pieData_length [of B yKey "cr_data resp"]
      pieData_sorted [of B yKey "cr_data resp"] pieData_largest [of _ B yKey "cr_data resp"]
    by simp
qed

theorem pie_chart_top_ten_witness:
  "renderChart \<lparr>num_str = (\<lambda>x. []), str_num = (\<lambda>s. None), localeCompare = (\<lambda>a b. 0),
      trim = (\<lambda>s. s), engine_sort = (\<lambda>cmp xs. xs)\<rparr>
     (Some \<lparr>cr_success = True,
            cr_config = \<lparr>chart_type = Pie, title = ''Share'', x_axis = None,
                         y_axis = Some ''v'', x_label = None, y_label = None\<rparr>,
            cr_data = [[(''v'', Num 3)], [(''v'', Num 11)], [(''v'', Num 1)], [(''v'', Num 7)], [(''v'', Num 5)], [(''v'', Num 9)], [(''v'', Num 2)], [(''v'', Num 10)], [(''v'', Num 4)], [(''v'', Num 8)], [(''v'', Num 6)]], cr_explanation = [], cr_error = None\<rparr>)
     = PieChart [[(''v'', Num 11)], [(''v'', Num 10)], [(''v'', Num 9)], [(''v'', Num 8)], [(''v'', Num 7)], [(''v'', Num 6)], [(''v'', Num 5)], [(''v'', Num 4)], [(''v'', Num 3)], [(''v'', Num 2)]] (Some ''v'') ''v'' \<and>
   snd (pieData_heap \<lparr>num_str = (\<lambda>x. []), str_num = (\<lambda>s. None), localeCompare = (\<lambda>a b. 0),
      trim = (\<lambda>s. s), engine_sort = (\<lambda>cmp xs. xs)\<rparr> ''v'' 0 [[[(''v'', Num 3)], [(''v'', Num 11)], [(''v'', Num 1)], [(''v'', Num 7)], [(''v'', Num 5)], [(''v'', Num 9)], [(''v'', Num 2)], [(''v'', Num 10)], [(''v'', Num 4)], [(''v'', Num 8)], [(''v'', Num 6)]]]) ! 0 = [[(''v'', Num 3)], [(''v'', Num 11)], [(''v'', Num 1)], [(''v'', Num 7)], [(''v'', Num 5)], [(''v'', Num 9)], [(''v'', Num 2)], [(''v'', Num 10)], [(''v'', Num 4)], [(''v'', Num 8)], [(''v'', Num 6)]]"
proof -
  let ?cfg = "\<lparr>chart_type = Pie, title = ''Share'', x_axis = None,
               y_axis = Some ''v'', x_label = None, y_label = None\<rparr>"
  let ?resp = "\<lparr>cr_success = True, cr_config = ?cfg, cr_data = [[(''v'', Num 3)], [(''v'', Num 11)], [(''v'', Num 1)], [(''v'', Num 7)], [(''v'', Num 5)], [(''v'', Num 9)], [(''v'', Num 2)], [(''v'', Num 10)], [(''v'', Num 4)], [(''v'', Num 8)], [(''v'', Num 6)]],
                cr_explanation = [], cr_error = None\<rparr>"
  have a: "chart_type (cr_config ?resp) = Pie" by simp
  have b: "cr_data ?resp = [(''v'', Num 3)] # [[(''v'', Num 11)], [(''v'', Num 1)], [(''v'', Num 7)], [(''v'', Num 5)], [(''v'', Num 9)], [(''v'', Num 2)], [(''v'', Num 10)], [(''v'', Num 4)], [(''v'', Num 8)], [(''v'', Num 6)]]" by simp
  have c: "(0::nat) < length [[[(''v'', Num 3)], [(''v'', Num 11)], [(''v'', Num 1)], [(''v'', Num 7)], [(''v'', Num 5)], [(''v'', Num 9)], [(''v'', Num 2)], [(''v'', Num 10)], [(''v'', Num 4)], [(''v'', Num 8)], [(''v'', Num 6)]]]" by simp
  have d: "[[[(''v'', Num 3)], [(''v'', Num 11)], [(''v'', Num 1)], [(''v'', Num 7)], [(''v'', Num 5)], [(''v'', Num 9)], [(''v'', Num 2)], [(''v'', Num 10)], [(''v'', Num 4)], [(''v'', Num 8)], [(''v'', Num 6)]]] ! 0 = cr_data ?resp" by simp
  have e: "''v'' = yKey_of (cr_config ?resp) [(''v'', Num 3)]"
    by (simp add: yKey_of_def str_or_def)
  note t = pie_chart_top_ten [OF a b c d e, where B = "\<lparr>num_str = (\<lambda>x. []), str_num = (\<lambda>s. None), localeCompare = (\<lambda>a b. 0),
      trim = (\<lambda>s. s), engine_sort = (\<lambda>cmp xs. xs)\<rparr>"]
  have p: "pieData \<lparr>num_str = (\<lambda>x. []), str_num = (\<lambda>s. None), localeCompare = (\<lambda>a b. 0),
      trim = (\<lambda>s. s), engine_sort = (\<lambda>cmp xs. xs)\<rparr> ''v'' [[(''v'', Num 3)], [(''v'', Num 11)], [(''v'', Num 1)], [(''v'', Num 7)], [(''v'', Num 5)], [(''v'', Num 9)], [(''v'', Num 2)], [(''v'', Num 10)], [(''v'', Num 4)], [(''v'', Num 8)], [(''v'', Num 6)]] = [[(''v'', Num 11)], [(''v'', Num 10)], [(''v'', Num 9)], [(''v'', Num 8)], [(''v'', Num 7)], [(''v'', Num 6)], [(''v'', Num 5)], [(''v'', Num 4)], [(''v'', Num 3)], [(''v'', Num 2)]]"
    by (simp add: pieData_def js_sort_def pie_cmp_def pie_value_def or_zero_def get_def)
  have x: "xKey_of ?cfg [(''v'', Num 3)] = Some ''v''"
    by (simp add: xKey_of_def str_or_def key_at_def keys_def)
  have v: "renderChart \<lparr>num_str = (\<lambda>x. []), str_num = (\<lambda>s. None), localeCompare = (\<lambda>a b. 0),
      trim = (\<lambda>s. s), engine_sort = (\<lambda>cmp xs. xs)\<rparr> (Some ?resp) = PieChart [[(''v'', Num 11)], [(''v'', Num 10)], [(''v'', Num 9)], [(''v'', Num 8)], [(''v'', Num 7)], [(''v'', Num 6)], [(''v'', Num 5)], [(''v'', Num 4)], [(''v'', Num 3)], [(''v'', Num 2)]] (Some ''v'') ''v''"
    using t [THEN conjunct1] p x by simp
  have u: "snd (pieData_heap \<lparr>num_str = (\<lambda>x. []), str_num = (\<lambda>s. None), localeCompare = (\<lambda>a b. 0),
      trim = (\<lambda>s. s), engine_sort = (\<lambda>cmp xs. xs)\<rparr> ''v'' 0 [[[(''v'', Num 3)], [(''v'', Num 11)], [(''v'', Num 1)], [(''v'', Num 7)], [(''v'', Num 5)], [(''v'', Num 9)], [(''v'', Num 2)], [(''v'', Num 10)], [(''v'', Num 4)], [(''v'', Num 8)], [(''v'', Num 6)]]]) ! 0 = [[(''v'', Num 3)], [(''v'', Num 11)], [(''v'', Num 1)], [(''v'', Num 7)], [(''v'', Num 5)], [(''v'', Num 9)], [(''v'', Num 2)], [(''v'', Num 10)], [(''v'', Num 4)], [(''v'', Num 8)], [(''v'', Num 6)]]"
    using t [THEN conjunct2, THEN conjunct2, THEN conjunct2, THEN conjunct2, THEN conjunct2,
             THEN conjunct2, THEN conjunct2, THEN conjunct2, THEN conjunct1]
    by simp
  show ?thesis using v u by (intro conjI)
qed

section \<open>Cell edits\<close>

text \<open>The store side: a read after an update gives the new value, and no other row changes.\<close>

lemma get_set_field: "get (set_field c v r) c = v"
  by (induction r) (auto simp: get_def)

lemma read_after_update:
  assumes "update_cell rows i c v = Some rows'"
  shows "read_cell rows' i c = Some v"
  using assms by (auto simp: update_cell_def read_cell_def get_set_field split: if_splits)

lemma read_other_row_after_update:
  assumes "update_cell rows i c v = Some rows'" and "j \<noteq> i"
  shows "read_cell rows' j c' = read_cell rows j c'"
proof -
  have "nat j \<noteq> nat i" if "0 \<le> j" "0 \<le> i" using that assms(2) by simp
  then show ?thesis
    using assms by (auto simp: update_cell_def read_cell_def split: if_splits)
qed

text \<open>
  Without a sort column the table shows the page as the store sent it, and the index
  \<open>saveEdit\<close> sends, \<open>(p-1)*P + i\<close>, is the index in the dataset of the row displayed at
  position \<open>i\<close>.
\<close>

lemma saveEdit_unsorted_addresses_displayed_row:
  assumes "sortColumn st = None" and "1 \<le> p"
      and "t_data props = page_rows rows p P"
      and "currentPage props = int p" and "pageSize props = int P"
      and "has_onCellEdit props" and "editingCell st = Some (i, c)"
      and "i < length (t_data props)"
  shows "\<exists>v. snd (saveEdit B props st) = Some (int ((p - 1) * P + i), c, v)
           \<and> rows ! ((p - 1) * P + i) = sortedData B props st ! i
           \<and> (p - 1) * P + i < length rows"
proof -
  have idx: "(int p - 1) * int P + int i = int ((p - 1) * P + i)"
    using assms(2) by (simp add: of_nat_diff)
  have shown: "sortedData B props st = page_rows rows p P"
    using assms(1,3) by (simp add: sortedData_def)
  have i: "i < length (page_rows rows p P)" using assms(3,8) by simp
  then have lt: "(p - 1) * P + i < length rows" and iP: "i < P"
    by (auto simp: page_rows_def)
  have le: "(p - 1) * P \<le> length rows" using lt by simp
  have "page_rows rows p P ! i = rows ! ((p - 1) * P + i)"
    using iP le by (simp add: page_rows_def nth_drop)
  then show ?thesis
    using assms(4-7) idx shown lt
    by (auto simp: saveEdit_def Let_def split: option.splits)
qed

text \<open>
  Claim C1.  A cell edit committed at displayed position \<open>i\<close> of page \<open>p\<close> sends the row
  index \<open>(p-1)*P + i\<close>, which is to address the edited row in the original order of the
  dataset in every state of the table, a sort column included.  With a sort column it
  does not: \<open>i\<close> is the position in the sorted display, and the index is that of another
  row of the dataset.  A dataset of two rows \<open>a = 2\<close>, \<open>a = 1\<close>, page 1 of size 50, sorted
  by \<open>a\<close> ascending: the first row displayed is the row \<open>a = 1\<close>, which is row 1 of the
  dataset; editing it sends row index 0, and the update overwrites the row \<open>a = 2\<close> while
  the row that was edited keeps its value.
\<close>

theorem saveEdit_sorted_addresses_other_row:
  "sortedData B
     \<lparr>t_data = page_rows [[(''a'', Num 2)], [(''a'', Num 1)]] 1 50, t_columns = [''a''],
      currentPage = 1, pageSize = 50, has_onCellEdit = True\<rparr>
     \<lparr>editingCell = None, editValue = [], sortColumn = Some ''a'', sortDirection = Asc\<rparr>
     = [[(''a'', Num 1)], [(''a'', Num 2)]]
   \<and> (\<exists>v. snd (saveEdit B
          \<lparr>t_data = page_rows [[(''a'', Num 2)], [(''a'', Num 1)]] 1 50, t_columns = [''a''],
           currentPage = 1, pageSize = 50, has_onCellEdit = True\<rparr>
          ((click_edit B
             \<lparr>t_data = page_rows [[(''a'', Num 2)], [(''a'', Num 1)]] 1 50, t_columns = [''a''],
              currentPage = 1, pageSize = 50, has_onCellEdit = True\<rparr>
             0 ''a''
             \<lparr>editingCell = None, editValue = [], sortColumn = Some ''a'', sortDirection = Asc\<rparr>)
           \<lparr>editValue := ''9''\<rparr>))
        = Some (0, ''a'', v)
      \<and> update_cell [[(''a'', Num 2)], [(''a'', Num 1)]] 0 ''a'' v
          = Some [[(''a'', v)], [(''a'', Num 1)]])
   \<and> read_cell [[(''a'', Num 2)], [(''a'', Num 1)]] 0 ''a'' = Some (Num 2)
   \<and> read_cell [[(''a'', Num 2)], [(''a'', Num 1)]] 1 ''a'' = Some (Num 1)"
  by (auto simp: sortedData_def array_sort_def consistent_on_def js_sort_def compare_rows_def
      get_def page_rows_def
      saveEdit_def click_edit_def startEditing_def cancelEditing_def update_cell_def
      read_cell_def Let_def split: option.splits)

section \<open>CSV export\<close>

text \<open>
  The cells are written so that the reader gets them back: when the first record has at
  least one field and no field name needs quoting, the export reads back as the header
  names and, for every record in order, the text of every cell.
\<close>

lemma delimiters_distinct:
  "comma \<noteq> dquote" "comma \<noteq> newline" "dquote \<noteq> newline"
  by (simp_all add: comma_def dquote_def newline_def)

lemma csv_read_plain:
  assumes "plain s"
  shows "csv_read False fld rec (s @ rest) = csv_read False (rev s @ fld) rec rest"
  using assms by (induction s arbitrary: fld) (auto simp: plain_def)

lemma csv_read_quoted:
  assumes "rest = [] \<or> hd rest \<noteq> dquote"
  shows "csv_read True fld rec (double_quotes s @ dquote # rest) = csv_read False (rev s @ fld) rec rest"
proof (induction s arbitrary: fld)
  case Nil
  then show ?case using assms by (cases rest) (simp_all add: double_quotes_def)
next
  case (Cons c s)
  obtain d ds where tl: "double_quotes s @ dquote # rest = d # ds"
    by (cases "double_quotes s @ dquote # rest") simp_all
  show ?case
  proof (cases "c = dquote")
    case True
    then have "csv_read True fld rec (double_quotes (c # s) @ dquote # rest)
               = csv_read True (dquote # fld) rec (double_quotes s @ dquote # rest)"
      by (simp add: double_quotes_def)
    then show ?thesis using Cons [of "dquote # fld"] True by simp
  next
    case False
    then have "csv_read True fld rec (double_quotes (c # s) @ dquote # rest)
               = csv_read True fld rec (c # d # ds)"
      using tl by (simp add: double_quotes_def)
    also have "\<dots> = csv_read True (c # fld) rec (d # ds)"
      using False by simp
    finally show ?thesis using Cons [of "c # fld"] tl by simp
  qed
qed

lemma csv_read_cell:
  assumes "encodes e s" and "rest = [] \<or> hd rest = comma \<or> hd rest = newline"
  shows "csv_read False [] rec (e @ rest) = csv_read False (rev s) rec rest"
proof -
  have r: "rest = [] \<or> hd rest \<noteq> dquote"
    using assms(2) by (auto simp: comma_def newline_def dquote_def)
  show ?thesis
    using assms(1) csv_read_plain [of s "[]" rec rest] csv_read_quoted [OF r, of "[]" rec s]
    by (auto simp: encodes_def)
qed

lemma csv_read_line:
  assumes "list_all2 encodes es ss" and "es \<noteq> []" and "rest = [] \<or> hd rest = newline"
  shows "csv_read False [] rec (join [comma] es @ rest)
           = csv_read False (rev (last ss)) (rev (butlast ss) @ rec) rest"
  using assms(1,2)
proof (induction es arbitrary: ss rec)
  case Nil
  then show ?case by simp
next
  case (Cons e es)
  then obtain s ss' where ss: "ss = s # ss'" "encodes e s" "list_all2 encodes es ss'"
    by (auto simp: list_all2_Cons1)
  show ?case
  proof (cases es)
    case Nil
    then have "ss' = []" using ss(3) by simp
    then show ?thesis
      using Nil ss(1) assms(3) csv_read_cell [OF ss(2), of rest rec] by auto
  next
    case (Cons e' es')
    then have ne: "ss' \<noteq> []" using ss(3) by auto
    have "csv_read False [] rec (join [comma] (e # es) @ rest)
            = csv_read False [] rec (e @ comma # join [comma] es @ rest)"
      using Cons by simp
    also have "\<dots> = csv_read False (rev s) rec (comma # join [comma] es @ rest)"
      using csv_read_cell [OF ss(2), of "comma # join [comma] es @ rest" rec] by simp
    also have "\<dots> = csv_read False [] (s # rec) (join [comma] es @ rest)"
      using delimiters_distinct by simp
    also have "\<dots> = csv_read False (rev (last ss')) (rev (butlast ss') @ s # rec) rest"
      using Cons.IH [OF ss(3), of "s # rec"] Cons by simp
    finally show ?thesis using ss(1) ne by simp
  qed
qed

lemma csv_read_lines:
  assumes "list_all2 (list_all2 encodes) ess sss" and "ess \<noteq> []" and "\<forall>es \<in> set ess. es \<noteq> []"
  shows "csv_read False [] [] (join [newline] (map (join [comma]) ess)) = sss"
  using assms
proof (induction ess arbitrary: sss)
  case Nil
  then show ?case by simp
next
  case (Cons es ess)
  then obtain ss sss' where sss: "sss = ss # sss'" "list_all2 encodes es ss"
      "list_all2 (list_all2 encodes) ess sss'"
    by (auto simp: list_all2_Cons1)
  have es: "es \<noteq> []" using Cons.prems(3) by simp
  then have ssne: "ss \<noteq> []" using sss(2) by auto
  show ?case
  proof (cases ess)
    case Nil
    then have "sss' = []" using sss(3) by simp
    then show ?thesis
      using Nil sss(1) ssne csv_read_line [OF sss(2) es, of "[]" "[]"] by simp
  next
    case (Cons es' ess')
    have "csv_read False [] [] (join [newline] (map (join [comma]) (es # ess)))
            = csv_read False [] [] (join [comma] es @ newline # join [newline] (map (join [comma]) ess))"
      using Cons by simp
    also have "\<dots> = csv_read False (rev (last ss)) (rev (butlast ss))
                        (newline # join [newline] (map (join [comma]) ess))"
      using csv_read_line [OF sss(2) es, of "newline # join [newline] (map (join [comma]) ess)" "[]"]
      by simp
    also have "\<dots> = ss # csv_read False [] [] (join [newline] (map (join [comma]) ess))"
      using delimiters_distinct ssne by simp
    also have "\<dots> = ss # sss'"
      using Cons.IH [OF sss(3)] Cons Cons.prems(3) by simp
    finally show ?thesis using sss(1) by simp
  qed
qed

lemma csv_cell_encodes: "encodes (csv_cell B v) (cell_text B v)"
  by (auto simp: encodes_def csv_cell_def cell_text_def plain_def Let_def)

lemma plain_encodes: "plain h \<Longrightarrow> encodes h h"
  by (simp add: encodes_def)

lemma downloadCSV_reads_back:
  assumes "keys first \<noteq> []" and "\<forall>h \<in> set (keys first). plain h"
  shows "\<exists>text. downloadCSV B (first # rest) filename = Some (text, filename)
           \<and> parse_csv text
               = keys first #
                 map (\<lambda>r. map (\<lambda>h. cell_text B (get r h)) (keys first)) (first # rest)"
proof -
  let ?hs = "keys first"
  let ?ess = "?hs # map (\<lambda>r. map (\<lambda>h. csv_cell B (get r h)) ?hs) (first # rest)"
  let ?sss = "?hs # map (\<lambda>r. map (\<lambda>h. cell_text B (get r h)) ?hs) (first # rest)"
  have hdr: "list_all2 encodes ?hs ?hs"
    using assms(2) by (simp add: list_all2_same plain_encodes)
  have rows: "list_all2 (list_all2 encodes)
                (map (\<lambda>r. map (\<lambda>h. csv_cell B (get r h)) ?hs) (first # rest))
                (map (\<lambda>r. map (\<lambda>h. cell_text B (get r h)) ?hs) (first # rest))"
    by (simp add: list_all2_map1 list_all2_map2 list_all2_same csv_cell_encodes)
  have all: "list_all2 (list_all2 encodes) ?ess ?sss"
    using hdr rows by simp
  have ne: "\<forall>es \<in> set ?ess. es \<noteq> []"
    using assms(1) by auto
  have "csv_read False [] [] (join [newline] (map (join [comma]) ?ess)) = ?sss"
    using all ne by (intro csv_read_lines) simp_all
  moreover have "csvRows B first (first # rest) = map (join [comma]) ?ess"
    by (simp add: csvRows_def Let_def)
  ultimately show ?thesis
    by (simp add: downloadCSV_def parse_csv_def)
qed

text \<open>
  Claim C9.  The export is a header row of the keys of the first record and one line
  per record in order, with the cells quoted where they hold a comma, a double quote or
  a line feed, and is to read back to the original text of every field.  The cells are
  quoted that way; the names in the header row are joined as they are.  A record with
  the one field \<open>a,b\<close> is exported with the header line \<open>a,b\<close>, which reads back as two
  names \<open>a\<close> and \<open>b\<close> over a record of one value: the field \<open>a,b\<close> and its value are not
  recovered.
\<close>

theorem downloadCSV_header_with_comma:
  "downloadCSV B [[(''a,b'', Str ''1'')]] ''export.csv''
     = Some (''a,b'' @ [newline] @ ''1'', ''export.csv'')
   \<and> parse_csv (''a,b'' @ [newline] @ ''1'') = [[''a'', ''b''], [''1'']]
   \<and> keys [(''a,b'', Str ''1'')] = [''a,b'']"
  by (simp add: downloadCSV_def csvRows_def csv_cell_def keys_def get_def nullish_or_def
      comma_def dquote_def newline_def parse_csv_def)

end
